theory Spec2Isabelle
  imports Main
begin

section \<open>Astro plugin (src/astro/main.py): a shallow embedding\<close>

text \<open>
  The plugin is Python 2 code. One iteration of the \<^verbatim>\<open>while True\<close> loop of
  \<^verbatim>\<open>Astro.run\<close> is the function \<open>run_cycle\<close> below; what the iteration reads from the
  outside world (the clocks, the HTTP response) is its argument, what it changes (the
  attributes of \<^verbatim>\<open>self\<close>, the local variables of \<^verbatim>\<open>run\<close> that survive an iteration, the
  calls made on the web interface) is a record that is passed in and returned.
  Every exception of the source is a value of type \<open>error\<close>.
\<close>

subsection \<open>Instants and durations\<close>

text \<open>
  A naive \<^verbatim>\<open>datetime\<close> is the number of microseconds since 1970-01-01T00:00:00, and a
  \<^verbatim>\<open>timedelta\<close> a number of microseconds: Python stores both with exactly this
  resolution. \<^verbatim>\<open>timedelta.total_seconds()\<close> and \<^verbatim>\<open>time.time()\<close> are floats
  in seconds in the source; here they stay exact microsecond counts, so the variable
  \<^verbatim>\<open>sleep\<close> is a number of microseconds and the source's literal \<^verbatim>\<open>5\<close> (seconds) is
  \<open>seconds 5\<close>.
\<close>

type_synonym datetime = int
type_synonym timedelta = int

definition seconds :: "int \<Rightarrow> timedelta" where
  "seconds n = n * 1000000"

datatype error =
  KeyError | ValueError | TypeError | UnboundLocalError | AttributeError | OverflowError

text \<open>\<^verbatim>\<open>datetime.min\<close> is 0001-01-01T00:00:00 and \<^verbatim>\<open>datetime.max\<close> is
  9999-12-31T23:59:59.999999; arithmetic that leaves the range raises OverflowError.\<close>

definition datetime_min :: datetime where
  "datetime_min = - 62135596800000000"

definition datetime_max :: datetime where
  "datetime_max = 253402300799999999"

text \<open>\<^verbatim>\<open>timedelta(minutes=m)\<close>: at most 999999999 days in either direction.\<close>

definition timedelta_minutes :: "int \<Rightarrow> error + timedelta" where
  "timedelta_minutes m =
     (let us = m * 60000000; d = us div 86400000000
      in if - 999999999 \<le> d \<and> d \<le> 999999999 then Inr us else Inl OverflowError)"

definition datetime_add :: "datetime \<Rightarrow> timedelta \<Rightarrow> error + datetime" where
  "datetime_add t d =
     (if datetime_min \<le> t + d \<and> t + d \<le> datetime_max then Inr (t + d) else Inl OverflowError)"

definition datetime_sub :: "datetime \<Rightarrow> timedelta \<Rightarrow> error + datetime" where
  "datetime_sub t d =
     (if datetime_min \<le> t - d \<and> t - d \<le> datetime_max then Inr (t - d) else Inl OverflowError)"

text \<open>\<^verbatim>\<open>int(td.total_seconds())\<close>: whole seconds, truncated towards zero.\<close>

definition int_total_seconds :: "timedelta \<Rightarrow> timedelta" where
  "int_total_seconds d =
     (if 0 \<le> d then seconds (d div 1000000) else - seconds ((- d) div 1000000))"

text \<open>
  \<^verbatim>\<open>Astro._seconds_to_tomorrow\<close>. The argument is the reading of \<^verbatim>\<open>datetime.now()\<close>
  (local wall clock); \<^verbatim>\<open>datetime(year, month, day)\<close> is the start of its day.
\<close>

definition seconds_to_tomorrow :: "datetime \<Rightarrow> timedelta" where
  "seconds_to_tomorrow local_now =
     (let local_tomorrow = (local_now div 86400000000) * 86400000000 + 86400000000
      in int_total_seconds (local_tomorrow - local_now))"

subsection \<open>The response of the sunrise-sunset service\<close>

text \<open>
  \<^verbatim>\<open>Astro._convert\<close> parses a timestamp with \<^verbatim>\<open>strptime\<close> and returns \<^verbatim>\<open>None\<close> for
  a date in 1970 (the service's "does not occur today"). The year of an instant is 1970
  exactly in the first 365 days after the epoch.
\<close>

definition convert :: "datetime \<Rightarrow> datetime option" where
  "convert date = (if 0 \<le> date \<and> date < seconds 31536000 then None else Some date)"

text \<open>
  A response is the decoded JSON object. \<open>status\<close> is \<^verbatim>\<open>data['status']\<close>
  (\<open>None\<close>: no such key). \<open>results\<close> is \<^verbatim>\<open>data['results']\<close>: a key has no value when
  it is missing (the lookup raises KeyError), and its value is either the instant that
  its string denotes or \<open>Unparsable\<close> for a string that \<^verbatim>\<open>strptime\<close> rejects (ValueError).
\<close>

datatype timestamp = Unparsable | Parsed datetime

record response =
  status :: "string option"
  results :: "string \<rightharpoonup> timestamp"

text \<open>\<^verbatim>\<open>Astro._convert(data['results'][k])\<close>\<close>

definition result_field :: "(string \<rightharpoonup> timestamp) \<Rightarrow> string \<Rightarrow> error + datetime option" where
  "result_field res k =
     (case res k of
        None \<Rightarrow> Inl KeyError
      | Some Unparsable \<Rightarrow> Inl ValueError
      | Some (Parsed d) \<Rightarrow> Inr (convert d))"

text \<open>Every timestamp the plugin reads is in the response and parses.\<close>

definition fields_ok :: "(string \<rightharpoonup> timestamp) \<Rightarrow> bool" where
  "fields_ok res =
     list_all (\<lambda>k. case res k of None \<Rightarrow> False | Some Unparsable \<Rightarrow> False
                                 | Some (Parsed d) \<Rightarrow> True)
       [''sunrise'', ''sunset'', ''civil_twilight_begin'', ''civil_twilight_end'',
        ''nautical_twilight_begin'', ''nautical_twilight_end'',
        ''astronomical_twilight_begin'', ''astronomical_twilight_end'']"

definition bind :: "error + 'a \<Rightarrow> ('a \<Rightarrow> error + 'b) \<Rightarrow> error + 'b" where
  "bind m f = (case m of Inl e \<Rightarrow> Inl e | Inr x \<Rightarrow> f x)"

subsection \<open>The state\<close>

text \<open>
  The attributes of the plugin object, the number of threads started so far on
  \<^verbatim>\<open>_translate_address\<close>, the two local variables of \<^verbatim>\<open>run\<close> that are not
  assigned on every path (\<open>None\<close>: unbound), and the calls made so far on
  \<^verbatim>\<open>webinterface.do_basic_action\<close> as pairs (action type, action number).
  \<open>previous_bits\<close> is the list \<^verbatim>\<open>self._previous_bits\<close>, whose entries are \<^verbatim>\<open>None\<close>
  or booleans.
\<close>

record astro =
  enabled :: bool
  latitude :: string
  longitude :: string
  bright_bit :: int
  horizon_bit :: int
  civil_bit :: int
  nautical_bit :: int
  astronomical_bit :: int
  bright_offset :: int
  group_action :: int
  previous_bits :: "bool option list"
  sleep_until :: int
  sunrise_data :: "response option"
  translate_address_threads :: nat
  bright_beg :: "datetime option"
  bright_end :: "datetime option"
  calls :: "(int \<times> int) list"

text \<open>What one iteration reads: \<^verbatim>\<open>datetime.utcnow()\<close>, \<^verbatim>\<open>datetime.now()\<close>,
  \<^verbatim>\<open>time.time()\<close> (one reading of each per iteration) and the outcome of the HTTP
  request (\<open>None\<close>: the request or the JSON decoding raised).\<close>

record env =
  utcnow :: datetime
  local_now :: datetime
  time_time :: int
  fetched :: "response option"

subsection \<open>Loading the data (lines 208 to 236)\<close>

text \<open>Lines 210 to 216. \<^verbatim>\<open>bright_beg\<close> and \<^verbatim>\<open>bright_end\<close> are assigned only when sunrise
  and sunset are both present; an OverflowError in between leaves what was assigned so far.\<close>

definition load_bright ::
  "astro \<Rightarrow> datetime option \<Rightarrow> datetime option \<Rightarrow> astro \<times> (error + bool)" where
  "load_bright s sunrise sunset =
     (case (sunrise, sunset) of
        (Some sr, Some ss) \<Rightarrow>
          (case timedelta_minutes (bright_offset s) of
             Inl e \<Rightarrow> (s, Inl e)
           | Inr td \<Rightarrow>
               (case datetime_add sr td of
                  Inl e \<Rightarrow> (s, Inl e)
                | Inr bb \<Rightarrow>
                    (case datetime_sub ss td of
                       Inl e \<Rightarrow> (s\<lparr>bright_beg := Some bb\<rparr>, Inl e)
                     | Inr be \<Rightarrow>
                         (s\<lparr>bright_beg := Some bb, bright_end := Some be\<rparr>, Inr (bb < be)))))
      | _ \<Rightarrow> (s, Inr False))"

text \<open>\<^verbatim>\<open>x is not None and y is not None\<close>\<close>

definition has :: "datetime option \<Rightarrow> datetime option \<Rightarrow> bool" where
  "has beg en = (beg \<noteq> None \<and> en \<noteq> None)"

subsection \<open>Analysing the data (lines 238 to 307)\<close>

text \<open>Lines 247 to 254: the bright flag and its edge.\<close>

definition bright_step ::
  "bool \<Rightarrow> datetime \<Rightarrow> datetime \<Rightarrow> datetime \<Rightarrow> timedelta \<Rightarrow> bool \<times> timedelta" where
  "bright_step has_bright bb be now sleep =
     (if \<not> has_bright then (False, sleep)
      else if bb < now \<and> now < be then (True, min sleep (int_total_seconds (be - now)))
      else if now < bb then (False, min sleep (int_total_seconds (bb - now)))
      else (False, sleep))"

text \<open>Lines 255 to 262: the day flag and its edge.\<close>

definition day_step ::
  "datetime option \<Rightarrow> datetime option \<Rightarrow> datetime \<Rightarrow> timedelta \<Rightarrow> bool \<times> timedelta" where
  "day_step sunrise sunset now sleep =
     (case (sunrise, sunset) of
        (Some sr, Some ss) \<Rightarrow>
          if sr < now \<and> now < ss then (True, min sleep (ss - now))
          else if now < sr then (False, min sleep (sr - now))
          else (False, sleep)
      | _ \<Rightarrow> (False, sleep))"

text \<open>
  Lines 263 to 273, 274 to 284 and 285 to 295 are the same block for the civil, nautical
  and astronomical level. \<open>broader\<close> is the source's test that a broader level has data,
  \<open>prev\<close> the flag of the level before. The test \<^verbatim>\<open>now < sunrise\<close> compares with the
  variable \<^verbatim>\<open>sunrise\<close> at every level; comparing a datetime with \<^verbatim>\<open>None\<close> raises
  TypeError in Python 2.
\<close>

definition twilight_step ::
  "datetime option \<Rightarrow> datetime option \<Rightarrow> bool \<Rightarrow> bool \<Rightarrow> datetime option \<Rightarrow> datetime \<Rightarrow>
   timedelta \<Rightarrow> error + bool \<times> timedelta" where
  "twilight_step beg en broader prev sunrise now sleep =
     (case (beg, en) of
        (Some b, Some e) \<Rightarrow>
          if b < now \<and> now < e then Inr (True, min sleep (e - now))
          else (case sunrise of
                  None \<Rightarrow> Inl TypeError
                | Some sr \<Rightarrow> if now < sr then Inr (False, min sleep (b - now))
                             else Inr (False, sleep))
      | _ \<Rightarrow> if broader then Inr (\<not> prev, sleep) else Inr (False, sleep))"

text \<open>Lines 297 to 307.\<close>

definition label :: "bool list \<Rightarrow> string" where
  "label bits =
     (let info = ''night'';
          info = (if bits ! 4 then ''astronomical twilight'' else info);
          info = (if bits ! 3 then ''nautical twilight'' else info);
          info = (if bits ! 2 then ''civil twilight'' else info);
          info = (if bits ! 1 then ''day'' else info);
          info = (if bits ! 0 then ''day (bright)'' else info)
      in info)"

text \<open>Lines 238 to 307. The result is \<^verbatim>\<open>(bits, sleep, info)\<close>.\<close>

definition analyse ::
  "bool \<Rightarrow> datetime \<Rightarrow> datetime \<Rightarrow> datetime option \<Rightarrow> datetime option \<Rightarrow>
   datetime option \<Rightarrow> datetime option \<Rightarrow> datetime option \<Rightarrow> datetime option \<Rightarrow>
   datetime option \<Rightarrow> datetime option \<Rightarrow> datetime \<Rightarrow> datetime \<Rightarrow>
   error + bool list \<times> timedelta \<times> string" where
  "analyse has_bright bb be sunrise sunset civil_beg civil_end nautical_beg nautical_end
     astronomical_beg astronomical_end now lnow =
     (let sleep = seconds (24 * 60 * 60);
          bits = [True, True, True, True, True];
          has_sun = has sunrise sunset;
          has_civil = has civil_beg civil_end;
          has_nautical = has nautical_beg nautical_end;
          has_astronomical = has astronomical_beg astronomical_end
      in if \<not> list_ex id [has_sun, has_civil, has_nautical, has_astronomical]
         then Inr ([True, True, True, True, True], seconds_to_tomorrow lnow, ''polar day'')
         else
           (let (b0, sleep) = bright_step has_bright bb be now sleep;
                bits = bits[0 := b0];
                (b1, sleep) = day_step sunrise sunset now sleep;
                bits = bits[1 := b1]
            in bind (twilight_step civil_beg civil_end has_sun (bits ! 1) sunrise now sleep)
                 (\<lambda>(b2, sleep).
                    let bits = bits[2 := b2]
                    in bind (twilight_step nautical_beg nautical_end (has_sun \<or> has_civil)
                               (bits ! 2) sunrise now sleep)
                         (\<lambda>(b3, sleep).
                            let bits = bits[3 := b3]
                            in bind (twilight_step astronomical_beg astronomical_end
                                       (has_sun \<or> has_civil \<or> has_nautical) (bits ! 3)
                                       sunrise now sleep)
                                 (\<lambda>(b4, sleep).
                                    let bits = bits[4 := b4];
                                        sleep = min sleep (seconds_to_tomorrow lnow)
                                    in Inr (bits, sleep, label bits))))))"

text \<open>
  Lines 208 to 307: load, log, analyse. The log lines 230 and 231 read \<^verbatim>\<open>bright_beg\<close>
  and \<^verbatim>\<open>bright_end\<close>, which raises UnboundLocalError while they are unbound. The state
  is returned as well, since the two locals keep their values into the next iteration.
\<close>

definition evaluate ::
  "astro \<Rightarrow> (string \<rightharpoonup> timestamp) \<Rightarrow> datetime \<Rightarrow> datetime \<Rightarrow>
   astro \<times> (error + bool list \<times> timedelta \<times> string)" where
  "evaluate s res now lnow =
     (case result_field res ''sunrise'' of
        Inl e \<Rightarrow> (s, Inl e)
      | Inr sunrise \<Rightarrow>
     (case result_field res ''sunset'' of
        Inl e \<Rightarrow> (s, Inl e)
      | Inr sunset \<Rightarrow>
     (case load_bright s sunrise sunset of
        (s1, Inl e) \<Rightarrow> (s1, Inl e)
      | (s1, Inr has_bright) \<Rightarrow>
          (s1,
           bind (result_field res ''civil_twilight_begin'') (\<lambda>civil_beg.
           bind (result_field res ''civil_twilight_end'') (\<lambda>civil_end.
           bind (result_field res ''nautical_twilight_begin'') (\<lambda>nautical_beg.
           bind (result_field res ''nautical_twilight_end'') (\<lambda>nautical_end.
           bind (result_field res ''astronomical_twilight_begin'') (\<lambda>astronomical_beg.
           bind (result_field res ''astronomical_twilight_end'') (\<lambda>astronomical_end.
             (case bright_beg s1 of
                None \<Rightarrow> Inl UnboundLocalError
              | Some bb \<Rightarrow>
                  (case bright_end s1 of
                     None \<Rightarrow> Inl UnboundLocalError
                   | Some be \<Rightarrow>
                       analyse has_bright bb be sunrise sunset civil_beg civil_end
                         nautical_beg nautical_end astronomical_beg astronomical_end
                         now lnow))))))))))))"

subsection \<open>One iteration of run (lines 198 to 337)\<close>

text \<open>\<^verbatim>\<open>get_sun_data_or_cached\<close>: a response that arrives is stored in
  \<^verbatim>\<open>self.sunrise_data\<close>, whatever its status; when the request raises, the stored one is
  returned. The attribute is not set in \<^verbatim>\<open>__init__\<close>, so reading it before the first
  response raises AttributeError.\<close>

definition get_sun_data_or_cached :: "response option \<Rightarrow> astro \<Rightarrow> astro \<times> (error + response)" where
  "get_sun_data_or_cached f s =
     (let s1 = (case f of None \<Rightarrow> s | Some d \<Rightarrow> s\<lparr>sunrise_data := Some d\<rparr>)
      in (s1, case sunrise_data s1 of None \<Rightarrow> Inl AttributeError | Some d \<Rightarrow> Inr d))"

text \<open>Lines 309 to 317: the loop over the five configured bits, in index order. Basic
  action 237 sets a bit, 238 clears it. The web interface is taken to answer with
  well-formed JSON; its answer is only logged.\<close>

fun set_bits :: "(nat \<times> int) list \<Rightarrow> bool list \<Rightarrow> (int \<times> int) list \<Rightarrow> (int \<times> int) list" where
  "set_bits [] bits cs = cs"
| "set_bits ((index, bit_id) # rest) bits cs =
     set_bits rest bits
       (if bit_id > - 1 then cs @ [(if bits ! index then 237 else 238, bit_id)] else cs)"

definition bit_table :: "astro \<Rightarrow> (nat \<times> int) list" where
  "bit_table s =
     [(0, bright_bit s), (1, horizon_bit s), (2, civil_bit s), (3, nautical_bit s),
      (4, astronomical_bit s)]"

text \<open>Lines 318 to 325: basic action 2 runs the group action.\<close>

definition zone_change :: "bool list \<Rightarrow> astro \<Rightarrow> astro" where
  "zone_change bits s =
     (if previous_bits s \<noteq> map Some bits
      then (let s1 = (if group_action s \<noteq> - 1
                      then s\<lparr>calls := calls s @ [(2, group_action s)]\<rparr> else s)
            in s1\<lparr>previous_bits := map Some bits\<rparr>)
      else s)"

text \<open>Lines 329 to 331 and the handler, lines 332 to 335, do the same.\<close>

definition sleep_to_tomorrow :: "env \<Rightarrow> astro \<Rightarrow> astro" where
  "sleep_to_tomorrow ev s =
     s\<lparr>sleep_until := time_time ev + seconds_to_tomorrow (local_now ev) + seconds 5\<rparr>"

definition run_cycle :: "env \<Rightarrow> astro \<Rightarrow> astro" where
  "run_cycle ev s =
     (if enabled s then
        (case get_sun_data_or_cached (fetched ev) s of
           (s1, Inl e) \<Rightarrow> sleep_to_tomorrow ev s1
         | (s1, Inr data) \<Rightarrow>
             (case status data of
                None \<Rightarrow> sleep_to_tomorrow ev s1
              | Some st \<Rightarrow>
                  if st = ''OK'' then
                    (case evaluate s1 (results data) (utcnow ev) (local_now ev) of
                       (s2, Inl e) \<Rightarrow> sleep_to_tomorrow ev s2
                     | (s2, Inr (bits, sleep, info)) \<Rightarrow>
                         (let s3 = s2\<lparr>calls := set_bits (bit_table s2) bits (calls s2)\<rparr>;
                              s4 = zone_change bits s3
                          in s4\<lparr>sleep_until := time_time ev + sleep + seconds 5\<rparr>))
                  else sleep_to_tomorrow ev s1))
      else s\<lparr>sleep_until := time_time ev + seconds 30\<rparr>)"

text \<open>\<^verbatim>\<open>run\<close> resets \<^verbatim>\<open>_previous_bits\<close> and starts with its locals unbound; the loop
  never ends, so a run is observed after finitely many iterations, one \<open>env\<close> each.\<close>

definition run_start :: "astro \<Rightarrow> astro" where
  "run_start s =
     s\<lparr>previous_bits := [None, None, None, None, None], bright_beg := None, bright_end := None\<rparr>"

fun run_cycles :: "env list \<Rightarrow> astro \<Rightarrow> astro" where
  "run_cycles [] s = s"
| "run_cycles (ev # evs) s = run_cycles evs (run_cycle ev s)"

definition run :: "env list \<Rightarrow> astro \<Rightarrow> astro" where
  "run evs s = run_cycles evs (run_start s)"

subsection \<open>Reading the configuration (lines 85 to 114, 147 to 155)\<close>

text \<open>
  The configuration dictionary. An integer entry is \<open>None\<close> when the key is missing
  or \<^verbatim>\<open>int\<close> rejects its value with ValueError: the source takes the default in both
  cases. A string entry is \<open>None\<close> when the key is missing. Strings are byte strings
  (\<^verbatim>\<open>set_config\<close> converts every string with \<^verbatim>\<open>str\<close>).
\<close>

record config =
  cfg_location :: "string option"
  cfg_coordinates :: "string option"
  cfg_bright_bit :: "int option"
  cfg_horizon_bit :: "int option"
  cfg_civil_bit :: "int option"
  cfg_nautical_bit :: "int option"
  cfg_astronomical_bit :: "int option"
  cfg_bright_offset :: "int option"
  cfg_group_action :: "int option"

definition get_or :: "'a option \<Rightarrow> 'a \<Rightarrow> 'a" where
  "get_or v d = (case v of None \<Rightarrow> d | Some x \<Rightarrow> x)"

text \<open>\<^verbatim>\<open>str.strip()\<close> removes the ASCII whitespace at both ends; \<^verbatim>\<open>\d\<close> is an ASCII
  digit (the pattern is compiled without flags).\<close>

definition isspace :: "char \<Rightarrow> bool" where
  "isspace c = (c \<in> set [CHR 0x20, CHR 0x09, CHR 0x0A, CHR 0x0B, CHR 0x0C, CHR 0x0D])"

definition isdigit :: "char \<Rightarrow> bool" where
  "isdigit c = (c \<in> set ''0123456789'')"

definition strip :: "string \<Rightarrow> string" where
  "strip x = rev (dropWhile isspace (rev (dropWhile isspace x)))"

text \<open>
  The group \<^verbatim>\<open>(\d+\.\d+)\<close> at the start of a string: the group and what follows it.
  \<^verbatim>\<open>\d+\<close> is greedy, and giving digits back never helps, since the character after
  the digits must be one that is not a digit.
\<close>

definition match_number :: "string \<Rightarrow> (string \<times> string) option" where
  "match_number x =
     (let a = takeWhile isdigit x
      in case dropWhile isdigit x of
           [] \<Rightarrow> None
         | c # y \<Rightarrow>
             (let b = takeWhile isdigit y
              in if a \<noteq> [] \<and> c = CHR ''.'' \<and> b \<noteq> []
                 then Some (a @ c # b, dropWhile isdigit y) else None))"

text \<open>\<^verbatim>\<open>re.match(r'^(\d+\.\d+);(\d+\.\d+)$', coordinates)\<close>: the two groups. Without
  flags \<^verbatim>\<open>$\<close> matches at the end and before a newline that ends the string.\<close>

definition match_coordinates :: "string \<Rightarrow> (string \<times> string) option" where
  "match_coordinates x =
     (case match_number x of
        None \<Rightarrow> None
      | Some (lat, y) \<Rightarrow>
          (case y of
             [] \<Rightarrow> None
           | c # z \<Rightarrow>
               if c = CHR '';'' then
                 (case match_number z of
                    None \<Rightarrow> None
                  | Some (lng, rest) \<Rightarrow>
                      if rest = [] \<or> rest = [CHR 0x0A] then Some (lat, lng) else None)
               else None))"

definition enable_plugin :: "astro \<Rightarrow> astro" where
  "enable_plugin s =
     s\<lparr>enabled := True, previous_bits := [None, None, None, None, None], sleep_until := 0\<rparr>"

text \<open>Line 105: the variable \<^verbatim>\<open>coordinates\<close>, the configured value (the empty string
  when there is none) without the whitespace around it.\<close>

definition coordinates_of :: "config \<Rightarrow> string" where
  "coordinates_of cfg = strip (get_or (cfg_coordinates cfg) [])"

text \<open>\<^verbatim>\<open>_read_config\<close>. In the branch without a match the source starts a thread on
  \<^verbatim>\<open>_translate_address\<close>, which geocodes the configured location; the thread runs beside
  this code and is counted, not run. The attribute \<^verbatim>\<open>_coordinates\<close>, which nothing reads,
  is left out.\<close>

definition read_config :: "config \<Rightarrow> astro \<Rightarrow> astro" where
  "read_config cfg s =
     (let s1 = s\<lparr>bright_bit := get_or (cfg_bright_bit cfg) (- 1),
                  horizon_bit := get_or (cfg_horizon_bit cfg) (- 1),
                  civil_bit := get_or (cfg_civil_bit cfg) (- 1),
                  nautical_bit := get_or (cfg_nautical_bit cfg) (- 1),
                  astronomical_bit := get_or (cfg_astronomical_bit cfg) (- 1),
                  bright_offset := get_or (cfg_bright_offset cfg) 60,
                  group_action := get_or (cfg_group_action cfg) (- 1),
                  previous_bits := [None, None, None, None, None],
                  enabled := False\<rparr>;
          coordinates = coordinates_of cfg
      in case match_coordinates coordinates of
           Some (lat, lng) \<Rightarrow> enable_plugin (s1\<lparr>latitude := lat, longitude := lng\<rparr>)
         | None \<Rightarrow> s1\<lparr>translate_address_threads := translate_address_threads s1 + 1\<rparr>)"

subsection \<open>The boundaries of a day\<close>

text \<open>
  Vocabulary for the properties, not code of the plugin: the instants of a pair that is
  present; all boundaries of a day, the bright window included when it is not empty; and
  a twilight window that, when present, contains the time from sunrise to sunset.
\<close>

definition pair_edges :: "datetime option \<Rightarrow> datetime option \<Rightarrow> datetime list" where
  "pair_edges beg en = (case (beg, en) of (Some x, Some y) \<Rightarrow> [x, y] | _ \<Rightarrow> [])"

definition boundaries ::
  "datetime \<Rightarrow> datetime \<Rightarrow> datetime option \<Rightarrow> datetime option \<Rightarrow> datetime option \<Rightarrow>
   datetime option \<Rightarrow> datetime option \<Rightarrow> datetime option \<Rightarrow> datetime option \<Rightarrow>
   datetime option \<Rightarrow> datetime list" where
  "boundaries bb be sunrise sunset cb ce nb ne ab ae =
     (if bb < be then [bb, be] else []) @ pair_edges sunrise sunset @ pair_edges cb ce
     @ pair_edges nb ne @ pair_edges ab ae"

definition around :: "datetime \<Rightarrow> datetime \<Rightarrow> datetime option \<Rightarrow> datetime option \<Rightarrow> bool" where
  "around sr ss beg en =
     (case (beg, en) of (Some x, Some y) \<Rightarrow> x \<le> sr \<and> ss \<le> y | _ \<Rightarrow> True)"

subsection \<open>Concrete days\<close>

text \<open>An instant given by the Unix time of a midnight, an hour and a minute; the
  response with the eight timestamps of a day; a plugin that has all five bits (0 to 4)
  and group action 7 configured, with the default offset of 60 minutes.\<close>

definition clock :: "int \<Rightarrow> int \<Rightarrow> int \<Rightarrow> datetime" where
  "clock midnight h m = seconds (midnight + h * 3600 + m * 60)"

definition day_results ::
  "datetime \<Rightarrow> datetime \<Rightarrow> datetime \<Rightarrow> datetime \<Rightarrow> datetime \<Rightarrow> datetime \<Rightarrow> datetime \<Rightarrow> datetime \<Rightarrow>
   string \<rightharpoonup> timestamp" where
  "day_results sr ss cb ce nb ne ab ae =
     map_of [(''sunrise'', Parsed sr), (''sunset'', Parsed ss),
             (''civil_twilight_begin'', Parsed cb), (''civil_twilight_end'', Parsed ce),
             (''nautical_twilight_begin'', Parsed nb), (''nautical_twilight_end'', Parsed ne),
             (''astronomical_twilight_begin'', Parsed ab),
             (''astronomical_twilight_end'', Parsed ae)]"

definition ok_response :: "(string \<rightharpoonup> timestamp) \<Rightarrow> response" where
  "ok_response res = \<lparr>status = Some ''OK'', results = res\<rparr>"

definition plugin :: astro where
  "plugin =
     \<lparr>enabled = True, latitude = ''50.85'', longitude = ''4.35'',
      bright_bit = 0, horizon_bit = 1, civil_bit = 2, nautical_bit = 3, astronomical_bit = 4,
      bright_offset = 60, group_action = 7,
      previous_bits = [None, None, None, None, None], sleep_until = 0,
      sunrise_data = None, translate_address_threads = 0,
      bright_beg = None, bright_end = None, calls = []\<rparr>"

text \<open>21 June 2024 (midnight 1718928000) in the far north: the sun rises at 03:00 and
  sets at 21:00 UTC, and no twilight ends, so the six twilight timestamps are epoch-zero.\<close>

definition white_night :: "string \<rightharpoonup> timestamp" where
  "white_night =
     day_results (clock 1718928000 3 0) (clock 1718928000 21 0) 0 0 0 0 0 0"

text \<open>A day on which the service reports no boundary at all.\<close>

definition polar :: "string \<rightharpoonup> timestamp" where
  "polar = day_results 0 0 0 0 0 0 0 0"

text \<open>21 December 2024 (midnight 1734739200) in the north: sunrise 11:30, sunset 13:00,
  civil twilight 09:30 to 15:00, nautical 08:00 to 16:30, astronomical 06:30 to 18:00.\<close>

definition short_day :: "string \<rightharpoonup> timestamp" where
  "short_day =
     day_results (clock 1734739200 11 30) (clock 1734739200 13 0)
       (clock 1734739200 9 30) (clock 1734739200 15 0)
       (clock 1734739200 8 0) (clock 1734739200 16 30)
       (clock 1734739200 6 30) (clock 1734739200 18 0)"

text \<open>A day later and further north: the sun does not rise, civil twilight lasts from
  10:00 to 14:00, nautical from 08:00 to 16:30, astronomical from 06:30 to 18:00.\<close>

definition sunless_day :: "string \<rightharpoonup> timestamp" where
  "sunless_day =
     day_results 0 0
       (clock 1734825600 10 0) (clock 1734825600 14 0)
       (clock 1734825600 8 0) (clock 1734825600 16 30)
       (clock 1734825600 6 30) (clock 1734825600 18 0)"

text \<open>The short day with sunrise and sunset exchanged: a present pair whose begin is
  after its end.\<close>

definition swapped_day :: "string \<rightharpoonup> timestamp" where
  "swapped_day =
     day_results (clock 1734739200 13 0) (clock 1734739200 11 30)
       (clock 1734739200 9 30) (clock 1734739200 15 0)
       (clock 1734739200 8 0) (clock 1734739200 16 30)
       (clock 1734739200 6 30) (clock 1734739200 18 0)"

text \<open>A response of the service with a status that is not OK.\<close>

definition invalid_request :: response where
  "invalid_request = \<lparr>status = Some ''INVALID_REQUEST'', results = Map.empty\<rparr>"

text \<open>An iteration at the given UTC instant, with the local clock an hour ahead.\<close>

definition cycle_at :: "datetime \<Rightarrow> response option \<Rightarrow> env" where
  "cycle_at now f =
     \<lparr>utcnow = now, local_now = now + seconds 3600, time_time = now, fetched = f\<rparr>"

text \<open>The plugin after its first iteration, at 12:00 UTC on the short day.\<close>

definition after_noon :: astro where
  "after_noon = run [cycle_at (clock 1734739200 12 0) (Some (ok_response short_day))] plugin"

text \<open>A configuration that sets the coordinates and leaves everything else at its
  default.\<close>

definition config_with :: "string \<Rightarrow> config" where
  "config_with c =
     \<lparr>cfg_location = Some ''Brussels,Belgium'', cfg_coordinates = Some c,
      cfg_bright_bit = None, cfg_horizon_bit = None, cfg_civil_bit = None,
      cfg_nautical_bit = None, cfg_astronomical_bit = None, cfg_bright_offset = None,
      cfg_group_action = None\<rparr>"

lemmas model_defs =
  seconds_def timedelta_minutes_def datetime_add_def datetime_sub_def datetime_min_def
  datetime_max_def int_total_seconds_def seconds_to_tomorrow_def convert_def
  result_field_def bind_def load_bright_def has_def bright_step_def day_step_def
  twilight_step_def label_def analyse_def evaluate_def get_sun_data_or_cached_def
  bit_table_def zone_change_def sleep_to_tomorrow_def run_cycle_def run_start_def run_def

lemmas input_defs =
  clock_def day_results_def ok_response_def plugin_def white_night_def polar_def
  short_day_def sunless_day_def swapped_day_def cycle_at_def invalid_request_def

section \<open>Properties\<close>

subsection \<open>What a successful evaluation went through\<close>

lemma load_bright_sun:
  assumes "timedelta_minutes (bright_offset s) = Inr td"
    and "datetime_add sr td = Inr bb" and "datetime_sub ss td = Inr be"
  shows "load_bright s (Some sr) (Some ss)
         = (s\<lparr>bright_beg := Some bb, bright_end := Some be\<rparr>, Inr (bb < be))"
  using assms by (simp add: load_bright_def)

lemma fields_ok_field:
  assumes "fields_ok res"
    and "k \<in> set [''sunrise'', ''sunset'', ''civil_twilight_begin'', ''civil_twilight_end'',
        ''nautical_twilight_begin'', ''nautical_twilight_end'',
        ''astronomical_twilight_begin'', ''astronomical_twilight_end'']"
  shows "\<exists>v. result_field res k = Inr v"
  using assms unfolding fields_ok_def result_field_def list_all_iff
  by (auto split: option.splits timestamp.splits)

text \<open>With sunrise known, a twilight level never raises; a pair whose end is not after
  its begin gives a false flag, and a level without data negates the level before.\<close>

lemma twilight_step_sun:
  "\<exists>b sl. twilight_step beg en broader prev (Some sr) now sleep = Inr (b, sl) \<and>
      (\<forall>x y. beg = Some x \<and> en = Some y \<and> y \<le> x \<longrightarrow> \<not> b) \<and>
      (\<not> has beg en \<and> broader \<longrightarrow> b = (\<not> prev))"
  by (auto simp: twilight_step_def has_def split: option.splits)

lemma day_step_swapped: "ss \<le> sr \<Longrightarrow> \<not> fst (day_step (Some sr) (Some ss) now sleep)"
  by (simp add: day_step_def)

text \<open>The evaluation returns flags whenever every timestamp parses, sunrise and sunset
  are present and the bright window is computed without overflow; the lemma names every
  intermediate value.\<close>

lemma evaluate_with_sun:
  assumes ok: "fields_ok res"
    and sr: "result_field res ''sunrise'' = Inr (Some sr)"
    and ss: "result_field res ''sunset'' = Inr (Some ss)"
    and td: "timedelta_minutes (bright_offset s) = Inr td"
    and bb: "datetime_add sr td = Inr bb" and be: "datetime_sub ss td = Inr be"
  shows "\<exists>cb ce nb ne ab ae b2 b3 b4 sl2 sl3 sl4 sl0 sl1 b0 b1.
           result_field res ''civil_twilight_begin'' = Inr cb \<and>
           result_field res ''civil_twilight_end'' = Inr ce \<and>
           result_field res ''nautical_twilight_begin'' = Inr nb \<and>
           result_field res ''nautical_twilight_end'' = Inr ne \<and>
           result_field res ''astronomical_twilight_begin'' = Inr ab \<and>
           result_field res ''astronomical_twilight_end'' = Inr ae \<and>
           bright_step (bb < be) bb be now (seconds (24 * 60 * 60)) = (b0, sl0) \<and>
           day_step (Some sr) (Some ss) now sl0 = (b1, sl1) \<and>
           twilight_step cb ce True b1 (Some sr) now sl1 = Inr (b2, sl2) \<and>
           twilight_step nb ne True b2 (Some sr) now sl2 = Inr (b3, sl3) \<and>
           twilight_step ab ae True b3 (Some sr) now sl3 = Inr (b4, sl4) \<and>
           evaluate s res now lnow =
             (s\<lparr>bright_beg := Some bb, bright_end := Some be\<rparr>,
              Inr ([b0, b1, b2, b3, b4], min sl4 (seconds_to_tomorrow lnow),
                   label [b0, b1, b2, b3, b4]))"
proof -
  obtain cb where cb: "result_field res ''civil_twilight_begin'' = Inr cb"
    using fields_ok_field[OF ok, of "''civil_twilight_begin''"] by auto
  obtain ce where ce: "result_field res ''civil_twilight_end'' = Inr ce"
    using fields_ok_field[OF ok, of "''civil_twilight_end''"] by auto
  obtain nb where nb: "result_field res ''nautical_twilight_begin'' = Inr nb"
    using fields_ok_field[OF ok, of "''nautical_twilight_begin''"] by auto
  obtain ne where ne: "result_field res ''nautical_twilight_end'' = Inr ne"
    using fields_ok_field[OF ok, of "''nautical_twilight_end''"] by auto
  obtain ab where ab: "result_field res ''astronomical_twilight_begin'' = Inr ab"
    using fields_ok_field[OF ok, of "''astronomical_twilight_begin''"] by auto
  obtain ae where ae: "result_field res ''astronomical_twilight_end'' = Inr ae"
    using fields_ok_field[OF ok, of "''astronomical_twilight_end''"] by auto
  obtain b0 sl0 where b0: "bright_step (bb < be) bb be now (seconds (24 * 60 * 60)) = (b0, sl0)"
    by (cases "bright_step (bb < be) bb be now (seconds (24 * 60 * 60))") auto
  obtain b1 sl1 where b1: "day_step (Some sr) (Some ss) now sl0 = (b1, sl1)"
    by (cases "day_step (Some sr) (Some ss) now sl0") auto
  obtain b2 sl2 where b2: "twilight_step cb ce True b1 (Some sr) now sl1 = Inr (b2, sl2)"
    using twilight_step_sun[of cb ce True b1 sr now sl1] by auto
  obtain b3 sl3 where b3: "twilight_step nb ne True b2 (Some sr) now sl2 = Inr (b3, sl3)"
    using twilight_step_sun[of nb ne True b2 sr now sl2] by auto
  obtain b4 sl4 where b4: "twilight_step ab ae True b3 (Some sr) now sl3 = Inr (b4, sl4)"
    using twilight_step_sun[of ab ae True b3 sr now sl3] by auto
  have an: "analyse (bb < be) bb be (Some sr) (Some ss) cb ce nb ne ab ae now lnow
            = Inr ([b0, b1, b2, b3, b4], min sl4 (seconds_to_tomorrow lnow),
                   label [b0, b1, b2, b3, b4])"
    using b0 b1 b2 b3 b4 by (simp add: analyse_def has_def bind_def Let_def)
  have "evaluate s res now lnow =
             (s\<lparr>bright_beg := Some bb, bright_end := Some be\<rparr>,
              Inr ([b0, b1, b2, b3, b4], min sl4 (seconds_to_tomorrow lnow),
                   label [b0, b1, b2, b3, b4]))"
    using sr ss cb ce nb ne ab ae an load_bright_sun[OF td bb be]
    by (simp add: evaluate_def bind_def)
  with cb ce nb ne ab ae b0 b1 b2 b3 b4 show ?thesis by blast
qed

text \<open>Conversely, an evaluation that returns flags on a day with sunrise and sunset
  has met these conditions, so they exclude no successful evaluation of such a day.\<close>

lemma evaluate_success_conditions:
  assumes "evaluate s res now lnow = (s1, Inr out)"
    and "result_field res ''sunrise'' = Inr (Some sr)"
    and "result_field res ''sunset'' = Inr (Some ss)"
  shows "fields_ok res \<and>
         (\<exists>td bb be. timedelta_minutes (bright_offset s) = Inr td \<and>
            datetime_add sr td = Inr bb \<and> datetime_sub ss td = Inr be)"
proof -
  have ok: "fields_ok res"
    using assms(1) unfolding evaluate_def bind_def fields_ok_def result_field_def
    by (auto split: sum.splits option.splits prod.splits timestamp.splits)
  have "\<exists>hb. load_bright s (Some sr) (Some ss) = (s1, Inr hb)"
    using assms unfolding evaluate_def
    by (auto split: sum.splits prod.splits)
  then have "\<exists>td bb be. timedelta_minutes (bright_offset s) = Inr td \<and>
            datetime_add sr td = Inr bb \<and> datetime_sub ss td = Inr be"
    unfolding load_bright_def by (auto split: sum.splits)
  with ok show ?thesis by blast
qed

subsection \<open>What an iteration leaves alone\<close>

lemma set_bits_eq:
  "set_bits tbl bits cs =
     cs @ map (\<lambda>(index, b). (if bits ! index then 237 else 238, b))
            (filter (\<lambda>(index, b). b > - 1) tbl)"
  by (induction tbl bits cs rule: set_bits.induct) auto

lemma load_bright_frame:
  assumes "load_bright s a b = (s1, r)"
  shows "calls s1 = calls s \<and> previous_bits s1 = previous_bits s \<and>
         group_action s1 = group_action s \<and> bit_table s1 = bit_table s \<and>
         sleep_until s1 = sleep_until s"
  using assms unfolding load_bright_def bit_table_def
  by (auto split: option.splits sum.splits)

lemma evaluate_frame:
  assumes "evaluate s res now lnow = (s1, r)"
  shows "calls s1 = calls s \<and> previous_bits s1 = previous_bits s \<and>
         group_action s1 = group_action s \<and> bit_table s1 = bit_table s \<and>
         sleep_until s1 = sleep_until s"
  using assms unfolding evaluate_def
  by (auto split: sum.splits prod.splits dest: load_bright_frame)

lemma get_sun_data_frame:
  assumes "get_sun_data_or_cached f s = (s1, r)"
  shows "calls s1 = calls s \<and> previous_bits s1 = previous_bits s \<and>
         group_action s1 = group_action s \<and> bit_table s1 = bit_table s \<and>
         sleep_until s1 = sleep_until s \<and> bright_beg s1 = bright_beg s \<and>
         bright_end s1 = bright_end s \<and> bright_offset s1 = bright_offset s"
  using assms unfolding get_sun_data_or_cached_def Let_def bit_table_def
  by (auto split: option.splits)

lemma sleep_to_tomorrow_frame:
  "calls (sleep_to_tomorrow ev s) = calls s \<and>
   previous_bits (sleep_to_tomorrow ev s) = previous_bits s \<and>
   bright_beg (sleep_to_tomorrow ev s) = bright_beg s \<and>
   sleep_until (sleep_to_tomorrow ev s)
     = time_time ev + seconds_to_tomorrow (local_now ev) + seconds 5"
  by (simp add: sleep_to_tomorrow_def)

text \<open>While \<^verbatim>\<open>bright_beg\<close> is unbound and sunrise or sunset is absent, nothing binds it
  and the evaluation raises (at the latest in line 230).\<close>

lemma evaluate_unbound:
  assumes "bright_beg s = None"
    and "result_field res ''sunrise'' = Inr None \<or> result_field res ''sunset'' = Inr None"
  shows "\<exists>e. evaluate s res now lnow = (s, Inl e)"
  using assms unfolding evaluate_def bind_def load_bright_def
  by (auto split: sum.splits option.splits)

subsection \<open>The single steps\<close>

text \<open>The flag a step returns, and bounds on the delay it returns.\<close>

lemma bright_step_flag:
  "bright_step hb bb be now sl = (b0, sl0) \<Longrightarrow> b0 = (hb \<and> bb < now \<and> now < be)"
  by (auto simp: bright_step_def split: if_splits)

lemma day_step_flag:
  "day_step (Some sr) (Some ss) now sl = (b1, sl1) \<Longrightarrow> b1 = (sr < now \<and> now < ss)"
  by (auto simp: day_step_def split: if_splits)

lemma twilight_step_flag:
  "twilight_step (Some x) (Some y) br prev (Some sr) now sl = Inr (b, sl') \<Longrightarrow>
     b = (x < now \<and> now < y)"
  by (auto simp: twilight_step_def split: if_splits)

lemma timedelta_minutes_sign:
  "timedelta_minutes m = Inr td \<Longrightarrow> 0 \<le> m \<Longrightarrow> 0 \<le> td"
  by (auto simp: timedelta_minutes_def Let_def split: if_splits)

lemma datetime_add_value: "datetime_add t d = Inr r \<Longrightarrow> r = t + d"
  by (auto simp: datetime_add_def split: if_splits)

lemma datetime_sub_value: "datetime_sub t d = Inr r \<Longrightarrow> r = t - d"
  by (auto simp: datetime_sub_def split: if_splits)

lemma int_total_seconds_bounds:
  "0 \<le> d \<Longrightarrow> 0 \<le> int_total_seconds d \<and> int_total_seconds d \<le> d"
  unfolding int_total_seconds_def seconds_def by (simp; presburger)

lemma seconds_to_tomorrow_nonneg: "0 \<le> seconds_to_tomorrow l"
proof -
  have "0 \<le> (l div 86400000000) * 86400000000 + 86400000000 - l" by presburger
  from int_total_seconds_bounds[OF this] show ?thesis
    by (simp add: seconds_to_tomorrow_def)
qed

lemma bright_step_sleep:
  assumes "bright_step hb bb be now sl = (b0, sl0)"
  shows "sl0 \<le> sl" and "0 \<le> sl \<Longrightarrow> 0 \<le> sl0"
    and "hb \<Longrightarrow> now < bb \<Longrightarrow> sl0 \<le> bb - now"
    and "hb \<Longrightarrow> bb < now \<Longrightarrow> now < be \<Longrightarrow> sl0 \<le> be - now"
  using assms int_total_seconds_bounds[of "bb - now"] int_total_seconds_bounds[of "be - now"]
  by (auto simp: bright_step_def split: if_splits)

lemma day_step_sleep:
  assumes "day_step (Some sr) (Some ss) now sl = (b1, sl1)"
  shows "sl1 \<le> sl" and "0 \<le> sl \<Longrightarrow> 0 \<le> sl1"
    and "now < sr \<Longrightarrow> sl1 \<le> sr - now"
    and "sr < now \<Longrightarrow> now < ss \<Longrightarrow> sl1 \<le> ss - now"
  using assms by (auto simp: day_step_def split: if_splits)

lemma twilight_step_sleep:
  assumes "twilight_step beg en br prev (Some sr) now sl = Inr (f, sl')"
    and "sr < ss" and "around sr ss beg en"
  shows "sl' \<le> sl" and "0 \<le> sl \<Longrightarrow> 0 \<le> sl'"
    and "now \<noteq> sr \<Longrightarrow> b \<in> set (pair_edges beg en) \<Longrightarrow> now < b \<Longrightarrow> sl' \<le> b - now"
  using assms
  by (auto simp: twilight_step_def around_def pair_edges_def split: if_splits option.splits)

subsection \<open>C1: nesting of the five flags\<close>

text \<open>
  C1 says that every evaluation yields flags with bright implies day implies civil
  implies nautical implies astronomical. The configuration descriptions of the source say
  the same of the bits ("day or civil twilight", "day, civil or nautical twilight").
  The fallback for a level without data negates the flag of the level before, so on a
  day with sunrise and sunset but no twilight timestamps the evaluation at noon returns
  day = True with civil = False, and nautical = True with astronomical = False.
\<close>

theorem C1_nesting_broken_by_fallback:
  "snd (evaluate plugin white_night (clock 1718928000 12 0) (clock 1718928000 13 0))
   = Inr ([True, True, False, True, False], seconds 28800, ''day (bright)'')"
  by (simp add: model_defs input_defs)

text \<open>With all four pairs present and nested, and an offset that is not negative, the
  flags do nest: the violation needs a level without data (or data that is not nested).\<close>

lemma nesting_with_full_data:
  assumes "fields_ok res"
    and "result_field res ''sunrise'' = Inr (Some sr)"
    and "result_field res ''sunset'' = Inr (Some ss)"
    and "timedelta_minutes (bright_offset s) = Inr td"
    and "datetime_add sr td = Inr bb" and "datetime_sub ss td = Inr be"
    and c: "result_field res ''civil_twilight_begin'' = Inr (Some cb)"
           "result_field res ''civil_twilight_end'' = Inr (Some ce)"
    and n: "result_field res ''nautical_twilight_begin'' = Inr (Some nb)"
           "result_field res ''nautical_twilight_end'' = Inr (Some ne)"
    and a: "result_field res ''astronomical_twilight_begin'' = Inr (Some ab)"
           "result_field res ''astronomical_twilight_end'' = Inr (Some ae)"
    and off: "0 \<le> bright_offset s"
    and nested: "ab \<le> nb" "nb \<le> cb" "cb \<le> sr" "ss \<le> ce" "ce \<le> ne" "ne \<le> ae"
  shows "\<exists>s1 bits sleep info.
           evaluate s res now lnow = (s1, Inr (bits, sleep, info)) \<and>
           (bits ! 0 \<longrightarrow> bits ! 1) \<and> (bits ! 1 \<longrightarrow> bits ! 2) \<and>
           (bits ! 2 \<longrightarrow> bits ! 3) \<and> (bits ! 3 \<longrightarrow> bits ! 4)"
proof -
  from evaluate_with_sun[OF assms(1-6), of now lnow] c n a
  obtain b2 b3 b4 sl2 sl3 sl4 sl0 sl1 b0 b1 where
    b0: "bright_step (bb < be) bb be now (seconds (24 * 60 * 60)) = (b0, sl0)" and
    b1: "day_step (Some sr) (Some ss) now sl0 = (b1, sl1)" and
    b2: "twilight_step (Some cb) (Some ce) True b1 (Some sr) now sl1 = Inr (b2, sl2)" and
    b3: "twilight_step (Some nb) (Some ne) True b2 (Some sr) now sl2 = Inr (b3, sl3)" and
    b4: "twilight_step (Some ab) (Some ae) True b3 (Some sr) now sl3 = Inr (b4, sl4)" and
    ev: "evaluate s res now lnow =
             (s\<lparr>bright_beg := Some bb, bright_end := Some be\<rparr>,
              Inr ([b0, b1, b2, b3, b4], min sl4 (seconds_to_tomorrow lnow),
                   label [b0, b1, b2, b3, b4]))"
    by auto
  have td: "0 \<le> td" using timedelta_minutes_sign[OF assms(4) off] .
  have bb: "bb = sr + td" and be: "be = ss - td"
    using datetime_add_value[OF assms(5)] datetime_sub_value[OF assms(6)] by simp_all
  have f0: "b0 = (bb < be \<and> bb < now \<and> now < be)" using bright_step_flag[OF b0] .
  have f1: "b1 = (sr < now \<and> now < ss)" using day_step_flag[OF b1] .
  have f2: "b2 = (cb < now \<and> now < ce)" using twilight_step_flag[OF b2] .
  have f3: "b3 = (nb < now \<and> now < ne)" using twilight_step_flag[OF b3] .
  have f4: "b4 = (ab < now \<and> now < ae)" using twilight_step_flag[OF b4] .
  have "(b0 \<longrightarrow> b1) \<and> (b1 \<longrightarrow> b2) \<and> (b2 \<longrightarrow> b3) \<and> (b3 \<longrightarrow> b4)"
    unfolding f0 f1 f2 f3 f4 using td bb be nested by auto
  with ev show ?thesis by (simp add: eval_nat_numeral)
qed

subsection \<open>C2: the civil flag without civil data\<close>

text \<open>
  C2: when the civil twilight pair is absent (either of its timestamps is epoch-zero) and
  sunrise and sunset are present, then at every instant \<open>now\<close> the evaluation returns
  flags, and the civil flag is the negation of the day flag. The evaluation is total here
  as soon as all eight timestamps parse and the bright window is computed without overflow.
\<close>

theorem C2_civil_falls_back_to_not_day:
  assumes "fields_ok res"
    and "result_field res ''sunrise'' = Inr (Some sr)"
    and "result_field res ''sunset'' = Inr (Some ss)"
    and "timedelta_minutes (bright_offset s) = Inr td"
    and "datetime_add sr td = Inr bb" and "datetime_sub ss td = Inr be"
    and "result_field res ''civil_twilight_begin'' = Inr None
         \<or> result_field res ''civil_twilight_end'' = Inr None"
  shows "\<exists>s1 bits sleep info.
           evaluate s res now lnow = (s1, Inr (bits, sleep, info)) \<and> bits ! 2 = (\<not> bits ! 1)"
proof -
  from evaluate_with_sun[OF assms(1-6), of now lnow]
  obtain cb ce nb ne ab ae b2 b3 b4 sl2 sl3 sl4 sl0 sl1 b0 b1 where
    cb: "result_field res ''civil_twilight_begin'' = Inr cb" and
    ce: "result_field res ''civil_twilight_end'' = Inr ce" and
    nf: "result_field res ''nautical_twilight_begin'' = Inr nb"
        "result_field res ''nautical_twilight_end'' = Inr ne"
        "result_field res ''astronomical_twilight_begin'' = Inr ab"
        "result_field res ''astronomical_twilight_end'' = Inr ae" and
    st: "bright_step (bb < be) bb be now (seconds (24 * 60 * 60)) = (b0, sl0)"
        "day_step (Some sr) (Some ss) now sl0 = (b1, sl1)" and
    t2: "twilight_step cb ce True b1 (Some sr) now sl1 = Inr (b2, sl2)" and
    t3: "twilight_step nb ne True b2 (Some sr) now sl2 = Inr (b3, sl3)"
        "twilight_step ab ae True b3 (Some sr) now sl3 = Inr (b4, sl4)" and
    ev: "evaluate s res now lnow =
             (s\<lparr>bright_beg := Some bb, bright_end := Some be\<rparr>,
              Inr ([b0, b1, b2, b3, b4], min sl4 (seconds_to_tomorrow lnow),
                   label [b0, b1, b2, b3, b4]))"
    by blast
  from assms(7) cb ce have "cb = None \<or> ce = None" by auto
  with t2 have "b2 = (\<not> b1)"
    by (auto simp: twilight_step_def split: option.splits)
  with ev show ?thesis by simp
qed

theorem C2_witness:
  "fields_ok white_night
   \<and> result_field white_night ''sunrise'' = Inr (Some (clock 1718928000 3 0))
   \<and> result_field white_night ''sunset'' = Inr (Some (clock 1718928000 21 0))
   \<and> result_field white_night ''civil_twilight_begin'' = Inr None
   \<and> (\<exists>s1 bits sleep info.
        evaluate plugin white_night (clock 1718928000 12 0) (clock 1718928000 13 0)
          = (s1, Inr (bits, sleep, info)) \<and> bits ! 2 = (\<not> bits ! 1))"
proof -
  have h1: "fields_ok white_night"
    by (simp add: fields_ok_def input_defs)
  have h2: "result_field white_night ''sunrise'' = Inr (Some (clock 1718928000 3 0))"
    by (simp add: model_defs input_defs)
  have h3: "result_field white_night ''sunset'' = Inr (Some (clock 1718928000 21 0))"
    by (simp add: model_defs input_defs)
  have h4: "timedelta_minutes (bright_offset plugin) = Inr (seconds 3600)"
    by (simp add: model_defs input_defs)
  have h5: "datetime_add (clock 1718928000 3 0) (seconds 3600) = Inr (clock 1718928000 4 0)"
    by (simp add: model_defs input_defs)
  have h6: "datetime_sub (clock 1718928000 21 0) (seconds 3600) = Inr (clock 1718928000 20 0)"
    by (simp add: model_defs input_defs)
  have h7: "result_field white_night ''civil_twilight_begin'' = Inr None"
    by (simp add: model_defs input_defs)
  from C2_civil_falls_back_to_not_day[OF h1 h2 h3 h4 h5 h6 disjI1[OF h7]] h1 h2 h3 h7
  show ?thesis by blast
qed

subsection \<open>C3: a cycle without usable data\<close>

text \<open>
  C3 (as amended): the response an iteration works with is the fetched one or, when the
  request raised, the one stored by an earlier iteration (\<^verbatim>\<open>get_sun_data_or_cached\<close>).
  Whenever there is none, or its status is not OK, the iteration sleeps until five seconds
  after the next local midnight, leaves \<^verbatim>\<open>_previous_bits\<close> as it is and calls no basic
  action.
\<close>

theorem C3_no_usable_data:
  assumes "enabled s"
    and "get_sun_data_or_cached (fetched ev) s = (s1, r)"
    and "\<forall>d. r = Inr d \<longrightarrow> status d \<noteq> Some ''OK''"
  shows "sleep_until (run_cycle ev s)
           = time_time ev + seconds_to_tomorrow (local_now ev) + seconds 5
         \<and> previous_bits (run_cycle ev s) = previous_bits s
         \<and> calls (run_cycle ev s) = calls s"
proof -
  note f1 = get_sun_data_frame[OF assms(2)]
  have "run_cycle ev s = sleep_to_tomorrow ev s1"
    using assms by (auto simp: run_cycle_def split: sum.splits option.splits)
  then show ?thesis using f1 by (simp add: sleep_to_tomorrow_frame)
qed

text \<open>A response with status INVALID_REQUEST at 12:00 UTC, 13:00 local time: the
  iteration sleeps 11 hours and 5 seconds.\<close>

theorem C3_witness:
  "enabled plugin
   \<and> sleep_until (run_cycle (cycle_at (clock 1734739200 12 0) (Some invalid_request)) plugin)
     = clock 1734739200 12 0 + seconds 39600 + seconds 5
   \<and> previous_bits (run_cycle (cycle_at (clock 1734739200 12 0) (Some invalid_request)) plugin)
     = [None, None, None, None, None]
   \<and> calls (run_cycle (cycle_at (clock 1734739200 12 0) (Some invalid_request)) plugin) = []"
proof -
  have h1: "enabled plugin" by (simp add: plugin_def)
  have h2: "get_sun_data_or_cached (fetched (cycle_at (clock 1734739200 12 0) (Some invalid_request)))
              plugin = (plugin\<lparr>sunrise_data := Some invalid_request\<rparr>, Inr invalid_request)"
    by (simp add: get_sun_data_or_cached_def cycle_at_def)
  have h3: "\<forall>d. (Inr invalid_request :: error + response) = Inr d \<longrightarrow> status d \<noteq> Some ''OK''"
    by (simp add: invalid_request_def)
  from C3_no_usable_data[OF h1 h2 h3] h1 show ?thesis
    by (simp add: model_defs input_defs)
qed

text \<open>C3 as stated fails when the request raises after an earlier iteration stored an
  OK response: the second iteration below has no fetched response, evaluates the stored
  one, sets the five bits again and sleeps 50 minutes (until sunset), not until midnight.\<close>

theorem C3_counterexample:
  "fetched (cycle_at (clock 1734739200 12 10) None) = None
   \<and> calls (run [cycle_at (clock 1734739200 12 0) (Some (ok_response short_day)),
                 cycle_at (clock 1734739200 12 10) None] plugin)
     = [(238, 0), (237, 1), (237, 2), (237, 3), (237, 4), (2, 7),
        (238, 0), (237, 1), (237, 2), (237, 3), (237, 4)]
   \<and> sleep_until (run [cycle_at (clock 1734739200 12 0) (Some (ok_response short_day)),
                       cycle_at (clock 1734739200 12 10) None] plugin)
     = clock 1734739200 12 10 + seconds 3000 + seconds 5"
  by (simp add: model_defs input_defs)

subsection \<open>C4: the polar branch\<close>

text \<open>
  C4 says that data without any boundary pair evaluates to five true flags, the label
  "polar day" and a sleep of the seconds to the next local midnight. Lines 243 to 245 do
  that, but the log line 230 before them reads \<^verbatim>\<open>bright_beg\<close>, which is bound only by
  an iteration that had both sunrise and sunset: in the first iteration of \<^verbatim>\<open>run\<close> the
  evaluation raises UnboundLocalError, no bit is set and \<^verbatim>\<open>_previous_bits\<close> stays empty.
\<close>

theorem C4_polar_day_on_first_cycle:
  "snd (evaluate (run_start plugin) polar (clock 1718928000 12 0) (clock 1718928000 13 0))
     = Inl UnboundLocalError
   \<and> calls (run [cycle_at (clock 1718928000 12 0) (Some (ok_response polar))] plugin) = []
   \<and> previous_bits (run [cycle_at (clock 1718928000 12 0) (Some (ok_response polar))] plugin)
     = [None, None, None, None, None]"
  by (simp add: model_defs input_defs)

text \<open>Once an earlier iteration has bound both locals, the polar branch is reached and
  does what C4 says.\<close>

lemma polar_with_bound_locals:
  assumes "fields_ok res"
    and "bright_beg s = Some bb" and "bright_end s = Some be"
    and "result_field res ''sunrise'' = Inr None \<or> result_field res ''sunset'' = Inr None"
    and "result_field res ''civil_twilight_begin'' = Inr None
         \<or> result_field res ''civil_twilight_end'' = Inr None"
    and "result_field res ''nautical_twilight_begin'' = Inr None
         \<or> result_field res ''nautical_twilight_end'' = Inr None"
    and "result_field res ''astronomical_twilight_begin'' = Inr None
         \<or> result_field res ''astronomical_twilight_end'' = Inr None"
  shows "evaluate s res now lnow
         = (s, Inr ([True, True, True, True, True], seconds_to_tomorrow lnow, ''polar day''))"
proof -
  obtain sunrise where f1: "result_field res ''sunrise'' = Inr sunrise"
    using fields_ok_field[OF assms(1), of "''sunrise''"] by auto
  obtain sunset where f2: "result_field res ''sunset'' = Inr sunset"
    using fields_ok_field[OF assms(1), of "''sunset''"] by auto
  obtain cb where f3: "result_field res ''civil_twilight_begin'' = Inr cb"
    using fields_ok_field[OF assms(1), of "''civil_twilight_begin''"] by auto
  obtain ce where f4: "result_field res ''civil_twilight_end'' = Inr ce"
    using fields_ok_field[OF assms(1), of "''civil_twilight_end''"] by auto
  obtain nb where f5: "result_field res ''nautical_twilight_begin'' = Inr nb"
    using fields_ok_field[OF assms(1), of "''nautical_twilight_begin''"] by auto
  obtain ne where f6: "result_field res ''nautical_twilight_end'' = Inr ne"
    using fields_ok_field[OF assms(1), of "''nautical_twilight_end''"] by auto
  obtain ab where f7: "result_field res ''astronomical_twilight_begin'' = Inr ab"
    using fields_ok_field[OF assms(1), of "''astronomical_twilight_begin''"] by auto
  obtain ae where f8: "result_field res ''astronomical_twilight_end'' = Inr ae"
    using fields_ok_field[OF assms(1), of "''astronomical_twilight_end''"] by auto
  have n: "\<not> has sunrise sunset" "\<not> has cb ce" "\<not> has nb ne" "\<not> has ab ae"
    using assms(4-7) f1 f2 f3 f4 f5 f6 f7 f8 by (auto simp: has_def)
  have lb: "load_bright s sunrise sunset = (s, Inr False)"
    using n(1) by (auto simp: load_bright_def has_def split: option.splits)
  have an: "analyse False bb be sunrise sunset cb ce nb ne ab ae now lnow
            = Inr ([True, True, True, True, True], seconds_to_tomorrow lnow, ''polar day'')"
    using n by (simp add: analyse_def)
  show ?thesis
    using f1 f2 f3 f4 f5 f6 f7 f8 lb an assms(2,3)
    by (simp add: evaluate_def bind_def)
qed

subsection \<open>C5: a pair whose begin is not before its end\<close>

text \<open>
  C5 (as amended): the source has no integrity check and no DataIntegrity error. When
  all eight timestamps parse, sunrise and sunset are present and the bright window is
  computed without overflow, the evaluation returns flags whatever the order of begin and
  end within a pair, and the flag of every present pair whose begin is not before its end
  is false (day for sunrise and sunset, civil, nautical and astronomical for theirs).
\<close>

theorem C5_no_integrity_check:
  assumes "fields_ok res"
    and "result_field res ''sunrise'' = Inr (Some sr)"
    and "result_field res ''sunset'' = Inr (Some ss)"
    and "timedelta_minutes (bright_offset s) = Inr td"
    and "datetime_add sr td = Inr bb" and "datetime_sub ss td = Inr be"
  shows "\<exists>s1 bits sleep info.
           evaluate s res now lnow = (s1, Inr (bits, sleep, info)) \<and>
           (ss \<le> sr \<longrightarrow> \<not> bits ! 1) \<and>
           (\<forall>b e. result_field res ''civil_twilight_begin'' = Inr (Some b) \<and>
                  result_field res ''civil_twilight_end'' = Inr (Some e) \<and> e \<le> b
                  \<longrightarrow> \<not> bits ! 2) \<and>
           (\<forall>b e. result_field res ''nautical_twilight_begin'' = Inr (Some b) \<and>
                  result_field res ''nautical_twilight_end'' = Inr (Some e) \<and> e \<le> b
                  \<longrightarrow> \<not> bits ! 3) \<and>
           (\<forall>b e. result_field res ''astronomical_twilight_begin'' = Inr (Some b) \<and>
                  result_field res ''astronomical_twilight_end'' = Inr (Some e) \<and> e \<le> b
                  \<longrightarrow> \<not> bits ! 4)"
proof -
  from evaluate_with_sun[OF assms(1-6), of now lnow]
  obtain cb ce nb ne ab ae b2 b3 b4 sl2 sl3 sl4 sl0 sl1 b0 b1 where
    f: "result_field res ''civil_twilight_begin'' = Inr cb"
       "result_field res ''civil_twilight_end'' = Inr ce"
       "result_field res ''nautical_twilight_begin'' = Inr nb"
       "result_field res ''nautical_twilight_end'' = Inr ne"
       "result_field res ''astronomical_twilight_begin'' = Inr ab"
       "result_field res ''astronomical_twilight_end'' = Inr ae" and
    b0: "bright_step (bb < be) bb be now (seconds (24 * 60 * 60)) = (b0, sl0)" and
    b1: "day_step (Some sr) (Some ss) now sl0 = (b1, sl1)" and
    b2: "twilight_step cb ce True b1 (Some sr) now sl1 = Inr (b2, sl2)" and
    b3: "twilight_step nb ne True b2 (Some sr) now sl2 = Inr (b3, sl3)" and
    b4: "twilight_step ab ae True b3 (Some sr) now sl3 = Inr (b4, sl4)" and
    ev: "evaluate s res now lnow =
             (s\<lparr>bright_beg := Some bb, bright_end := Some be\<rparr>,
              Inr ([b0, b1, b2, b3, b4], min sl4 (seconds_to_tomorrow lnow),
                   label [b0, b1, b2, b3, b4]))"
    by blast
  have d: "ss \<le> sr \<longrightarrow> \<not> b1"
    using b1 day_step_swapped[of ss sr now sl0] by auto
  have c: "\<forall>b e. cb = Some b \<and> ce = Some e \<and> e \<le> b \<longrightarrow> \<not> b2"
    using b2 twilight_step_sun[of cb ce True b1 sr now sl1] by auto
  have n: "\<forall>b e. nb = Some b \<and> ne = Some e \<and> e \<le> b \<longrightarrow> \<not> b3"
    using b3 twilight_step_sun[of nb ne True b2 sr now sl2] by auto
  have a: "\<forall>b e. ab = Some b \<and> ae = Some e \<and> e \<le> b \<longrightarrow> \<not> b4"
    using b4 twilight_step_sun[of ab ae True b3 sr now sl3] by auto
  show ?thesis using ev f d c n a by (simp add: eval_nat_numeral)
qed

theorem C5_witness:
  "fields_ok swapped_day
   \<and> result_field swapped_day ''sunrise'' = Inr (Some (clock 1734739200 13 0))
   \<and> result_field swapped_day ''sunset'' = Inr (Some (clock 1734739200 11 30))
   \<and> clock 1734739200 11 30 \<le> clock 1734739200 13 0
   \<and> (\<exists>s1 bits sleep info.
        evaluate plugin swapped_day (clock 1734739200 12 0) (clock 1734739200 13 0)
          = (s1, Inr (bits, sleep, info)) \<and> \<not> bits ! 1)"
proof -
  have h1: "fields_ok swapped_day"
    by (simp add: fields_ok_def input_defs)
  have h2: "result_field swapped_day ''sunrise'' = Inr (Some (clock 1734739200 13 0))"
    by (simp add: model_defs input_defs)
  have h3: "result_field swapped_day ''sunset'' = Inr (Some (clock 1734739200 11 30))"
    by (simp add: model_defs input_defs)
  have h4: "timedelta_minutes (bright_offset plugin) = Inr (seconds 3600)"
    by (simp add: model_defs input_defs)
  have h5: "datetime_add (clock 1734739200 13 0) (seconds 3600) = Inr (clock 1734739200 14 0)"
    by (simp add: model_defs input_defs)
  have h6: "datetime_sub (clock 1734739200 11 30) (seconds 3600) = Inr (clock 1734739200 10 30)"
    by (simp add: model_defs input_defs)
  have h7: "clock 1734739200 11 30 \<le> clock 1734739200 13 0"
    by (simp add: clock_def seconds_def)
  from C5_no_integrity_check[OF h1 h2 h3 h4 h5 h6,
      of "clock 1734739200 12 0" "clock 1734739200 13 0"] h1 h2 h3 h7
  show ?thesis by blast
qed

text \<open>C5 as stated fails: with sunrise after sunset the evaluation raises nothing, and
  the caller sets the bits and runs the group action as on any other day.\<close>

theorem C5_counterexample:
  "result_field swapped_day ''sunrise'' = Inr (Some (clock 1734739200 13 0))
   \<and> result_field swapped_day ''sunset'' = Inr (Some (clock 1734739200 11 30))
   \<and> snd (evaluate plugin swapped_day (clock 1734739200 12 0) (clock 1734739200 13 0))
     = Inr ([False, False, True, True, True], seconds 3600, ''civil twilight'')
   \<and> calls (run_cycle (cycle_at (clock 1734739200 12 0) (Some (ok_response swapped_day))) plugin)
     = [(238, 0), (238, 1), (237, 2), (237, 3), (237, 4), (2, 7)]"
  by (simp add: model_defs input_defs)

subsection \<open>C6: the empty bright window\<close>

text \<open>
  C6: on a day with sunrise and sunset present on which the bright window is empty
  (\<^verbatim>\<open>bright_beg = sunrise + offset\<close> is not before \<^verbatim>\<open>bright_end = sunset - offset\<close>),
  the evaluation returns flags at every instant \<open>now\<close>, and the bright flag is false.
\<close>

theorem C6_empty_bright_window:
  assumes "fields_ok res"
    and "result_field res ''sunrise'' = Inr (Some sr)"
    and "result_field res ''sunset'' = Inr (Some ss)"
    and "timedelta_minutes (bright_offset s) = Inr td"
    and "datetime_add sr td = Inr bb" and "datetime_sub ss td = Inr be"
    and "be \<le> bb"
  shows "\<exists>s1 bits sleep info.
           evaluate s res now lnow = (s1, Inr (bits, sleep, info)) \<and> \<not> bits ! 0"
proof -
  from evaluate_with_sun[OF assms(1-6), of now lnow]
  obtain cb ce nb ne ab ae b2 b3 b4 sl2 sl3 sl4 sl0 sl1 b0 b1 where
    f: "result_field res ''civil_twilight_begin'' = Inr cb"
       "result_field res ''civil_twilight_end'' = Inr ce"
       "result_field res ''nautical_twilight_begin'' = Inr nb"
       "result_field res ''nautical_twilight_end'' = Inr ne"
       "result_field res ''astronomical_twilight_begin'' = Inr ab"
       "result_field res ''astronomical_twilight_end'' = Inr ae" and
    b0: "bright_step (bb < be) bb be now (seconds (24 * 60 * 60)) = (b0, sl0)" and
    st: "day_step (Some sr) (Some ss) now sl0 = (b1, sl1)"
        "twilight_step cb ce True b1 (Some sr) now sl1 = Inr (b2, sl2)"
        "twilight_step nb ne True b2 (Some sr) now sl2 = Inr (b3, sl3)"
        "twilight_step ab ae True b3 (Some sr) now sl3 = Inr (b4, sl4)" and
    ev: "evaluate s res now lnow =
             (s\<lparr>bright_beg := Some bb, bright_end := Some be\<rparr>,
              Inr ([b0, b1, b2, b3, b4], min sl4 (seconds_to_tomorrow lnow),
                   label [b0, b1, b2, b3, b4]))"
    by blast
  from assms(7) b0 have "\<not> b0" by (simp add: bright_step_def)
  with ev show ?thesis by simp
qed

theorem C6_witness:
  "fields_ok short_day
   \<and> result_field short_day ''sunrise'' = Inr (Some (clock 1734739200 11 30))
   \<and> result_field short_day ''sunset'' = Inr (Some (clock 1734739200 13 0))
   \<and> clock 1734739200 12 0 \<le> clock 1734739200 12 30
   \<and> (\<exists>s1 bits sleep info.
        evaluate plugin short_day (clock 1734739200 12 15) (clock 1734739200 13 15)
          = (s1, Inr (bits, sleep, info)) \<and> \<not> bits ! 0)"
proof -
  have h1: "fields_ok short_day"
    by (simp add: fields_ok_def input_defs)
  have h2: "result_field short_day ''sunrise'' = Inr (Some (clock 1734739200 11 30))"
    by (simp add: model_defs input_defs)
  have h3: "result_field short_day ''sunset'' = Inr (Some (clock 1734739200 13 0))"
    by (simp add: model_defs input_defs)
  have h4: "timedelta_minutes (bright_offset plugin) = Inr (seconds 3600)"
    by (simp add: model_defs input_defs)
  have h5: "datetime_add (clock 1734739200 11 30) (seconds 3600) = Inr (clock 1734739200 12 30)"
    by (simp add: model_defs input_defs)
  have h6: "datetime_sub (clock 1734739200 13 0) (seconds 3600) = Inr (clock 1734739200 12 0)"
    by (simp add: model_defs input_defs)
  have h7: "clock 1734739200 12 0 \<le> clock 1734739200 12 30"
    by (simp add: clock_def seconds_def)
  from C6_empty_bright_window[OF h1 h2 h3 h4 h5 h6 h7,
      of "clock 1734739200 12 15" "clock 1734739200 13 15"] h1 h2 h3 h7
  show ?thesis by blast
qed

subsection \<open>C7: what a successful iteration calls\<close>

text \<open>
  C7 (as amended): on every iteration whose evaluation returned flags, one set-bit
  action (237 to set, 238 to clear) is called for every bit whose configured number is
  greater than -1, in the order bright, horizon, civil, nautical, astronomical, whether
  or not the flags changed; the group action (basic action 2) is called after them
  exactly when the flags differ from \<^verbatim>\<open>_previous_bits\<close> and the group action is not -1;
  \<^verbatim>\<open>_previous_bits\<close> ends as the new flags, so it changes exactly when they differ; and
  the iteration sleeps for the computed delay plus five seconds.
\<close>

theorem C7_actuation_every_cycle:
  assumes "enabled s"
    and "get_sun_data_or_cached (fetched ev) s = (s1, Inr d)"
    and "status d = Some ''OK''"
    and "evaluate s1 (results d) (utcnow ev) (local_now ev) = (s2, Inr (bits, sleep, info))"
  shows "calls (run_cycle ev s) =
           calls s
           @ map (\<lambda>(index, b). (if bits ! index then 237 else 238, b))
               (filter (\<lambda>(index, b). b > - 1) (bit_table s))
           @ (if previous_bits s \<noteq> map Some bits \<and> group_action s \<noteq> - 1
              then [(2, group_action s)] else [])
         \<and> previous_bits (run_cycle ev s) = map Some bits
         \<and> (previous_bits (run_cycle ev s) \<noteq> previous_bits s)
             = (previous_bits s \<noteq> map Some bits)
         \<and> sleep_until (run_cycle ev s) = time_time ev + sleep + seconds 5"
proof -
  note f1 = get_sun_data_frame[OF assms(2)]
  note f2 = evaluate_frame[OF assms(4)]
  have rc: "run_cycle ev s =
          (zone_change bits (s2\<lparr>calls := set_bits (bit_table s2) bits (calls s2)\<rparr>))
            \<lparr>sleep_until := time_time ev + sleep + seconds 5\<rparr>"
    using assms by (simp add: run_cycle_def Let_def)
  show ?thesis
    unfolding rc using f1 f2
    by (auto simp: zone_change_def Let_def set_bits_eq)
qed

text \<open>The plugin after an iteration at 12:00 on the short day, and a second iteration at
  12:10 with the same flags: five set-bit calls, no group action.\<close>

theorem C7_witness:
  "enabled after_noon
   \<and> previous_bits after_noon = [Some False, Some True, Some True, Some True, Some True]
   \<and> calls (run_cycle (cycle_at (clock 1734739200 12 10) (Some (ok_response short_day)))
        after_noon)
     = calls after_noon @ [(238, 0), (237, 1), (237, 2), (237, 3), (237, 4)]
   \<and> previous_bits (run_cycle (cycle_at (clock 1734739200 12 10) (Some (ok_response short_day)))
        after_noon)
     = [Some False, Some True, Some True, Some True, Some True]"
proof -
  have h1: "enabled after_noon"
    by (simp add: after_noon_def model_defs input_defs)
  have h2: "get_sun_data_or_cached
              (fetched (cycle_at (clock 1734739200 12 10) (Some (ok_response short_day))))
              after_noon = (after_noon, Inr (ok_response short_day))"
    by (simp add: after_noon_def model_defs input_defs)
  have h3: "status (ok_response short_day) = Some ''OK''"
    by (simp add: ok_response_def)
  have h4: "evaluate after_noon (results (ok_response short_day))
              (utcnow (cycle_at (clock 1734739200 12 10) (Some (ok_response short_day))))
              (local_now (cycle_at (clock 1734739200 12 10) (Some (ok_response short_day))))
            = (after_noon, Inr ([False, True, True, True, True], seconds 3000, ''day''))"
    by (simp add: after_noon_def model_defs input_defs)
  have p: "previous_bits after_noon = [Some False, Some True, Some True, Some True, Some True]"
    by (simp add: after_noon_def model_defs input_defs)
  have t: "bit_table after_noon = [(0, 0), (1, 1), (2, 2), (3, 3), (4, 4)]"
    by (simp add: after_noon_def model_defs input_defs)
  from C7_actuation_every_cycle[OF h1 h2 h3 h4] h1 p t show ?thesis
    by simp
qed

text \<open>C7 as stated fails for a bit number below -1: it is not -1, and no action is
  called for it (the test of the source is \<^verbatim>\<open>bit > -1\<close>).\<close>

theorem C7_counterexample:
  "horizon_bit (plugin\<lparr>horizon_bit := - 2\<rparr>) \<noteq> - 1
   \<and> calls (run_cycle (cycle_at (clock 1734739200 12 0) (Some (ok_response short_day)))
        (plugin\<lparr>horizon_bit := - 2\<rparr>))
     = [(238, 0), (237, 2), (237, 3), (237, 4), (2, 7)]"
  by (simp add: model_defs input_defs)

subsection \<open>C8: no missed transition\<close>

text \<open>
  C8 says that the delay never exceeds the time to the nearest boundary after \<open>now\<close>
  (plus the guard of five seconds). The comparisons of the source are strict on both
  sides: at the instant of sunrise the day flag is still false and the test
  \<^verbatim>\<open>now < sunrise\<close> is false too, so neither sunrise nor sunset enters the minimum. On
  the short day at 11:30:00 the nearest boundary is sunset, 5400 seconds ahead; the
  evaluation returns day = False and a delay of 12600 seconds (the end of civil twilight).
\<close>

theorem C8_sunset_edge_missed:
  "snd (evaluate plugin short_day (clock 1734739200 11 30) (clock 1734739200 12 30))
     = Inr ([False, False, True, True, True], seconds 12600, ''civil twilight'')
   \<and> sleep_until (run_cycle (cycle_at (clock 1734739200 11 30) (Some (ok_response short_day)))
        plugin) = clock 1734739200 11 30 + seconds 12600 + seconds 5"
  by (simp add: model_defs input_defs)

text \<open>
  Away from that instant the bound holds. With sunrise before sunset, every present
  twilight window around them, and \<open>now\<close> neither the instant of sunrise nor the begin
  of the bright window, the delay is not negative and is at most the time to the nearest
  boundary after \<open>now\<close>.
\<close>

lemma no_missed_transition_off_boundary:
  assumes "fields_ok res"
    and "result_field res ''sunrise'' = Inr (Some sr)"
    and "result_field res ''sunset'' = Inr (Some ss)"
    and "timedelta_minutes (bright_offset s) = Inr td"
    and "datetime_add sr td = Inr bb" and "datetime_sub ss td = Inr be"
    and c: "result_field res ''civil_twilight_begin'' = Inr cb"
           "result_field res ''civil_twilight_end'' = Inr ce"
    and n: "result_field res ''nautical_twilight_begin'' = Inr nb"
           "result_field res ''nautical_twilight_end'' = Inr ne"
    and a: "result_field res ''astronomical_twilight_begin'' = Inr ab"
           "result_field res ''astronomical_twilight_end'' = Inr ae"
    and day: "sr < ss"
    and nested: "around sr ss cb ce" "around sr ss nb ne" "around sr ss ab ae"
    and off: "now \<noteq> sr" "now \<noteq> bb"
    and b: "b \<in> set (boundaries bb be (Some sr) (Some ss) cb ce nb ne ab ae)" "now < b"
    and nearest: "\<forall>e \<in> set (boundaries bb be (Some sr) (Some ss) cb ce nb ne ab ae).
                    now < e \<longrightarrow> b \<le> e"
  shows "\<exists>s1 bits sleep info.
           evaluate s res now lnow = (s1, Inr (bits, sleep, info)) \<and>
           0 < sleep + seconds 5 \<and> sleep + seconds 5 \<le> (b - now) + seconds 5"
proof -
  from evaluate_with_sun[OF assms(1-6), of now lnow] c n a
  obtain b2 b3 b4 sl2 sl3 sl4 sl0 sl1 b0 b1 where
    b0: "bright_step (bb < be) bb be now (seconds (24 * 60 * 60)) = (b0, sl0)" and
    b1: "day_step (Some sr) (Some ss) now sl0 = (b1, sl1)" and
    b2: "twilight_step cb ce True b1 (Some sr) now sl1 = Inr (b2, sl2)" and
    b3: "twilight_step nb ne True b2 (Some sr) now sl2 = Inr (b3, sl3)" and
    b4: "twilight_step ab ae True b3 (Some sr) now sl3 = Inr (b4, sl4)" and
    ev: "evaluate s res now lnow =
             (s\<lparr>bright_beg := Some bb, bright_end := Some be\<rparr>,
              Inr ([b0, b1, b2, b3, b4], min sl4 (seconds_to_tomorrow lnow),
                   label [b0, b1, b2, b3, b4]))"
    by auto
  note s0 = bright_step_sleep[OF b0]
  note s1 = day_step_sleep[OF b1]
  note s2 = twilight_step_sleep[OF b2 day nested(1)]
  note s3 = twilight_step_sleep[OF b3 day nested(2)]
  note s4 = twilight_step_sleep[OF b4 day nested(3)]
  have p0: "0 \<le> sl0" using s0(2) by (simp add: seconds_def)
  have p4: "0 \<le> sl4" using p0 s1(2) s2(2) s3(2) s4(2) by blast
  have pos: "0 < min sl4 (seconds_to_tomorrow lnow) + seconds 5"
    using p4 seconds_to_tomorrow_nonneg[of lnow] by (simp add: seconds_def min_def)
  have chain: "sl4 \<le> sl3" "sl3 \<le> sl2" "sl2 \<le> sl1" "sl1 \<le> sl0"
    using s4(1) s3(1) s2(1) s1(1) by simp_all
  from b(1) consider
      (bright) "bb < be" "b = bb \<or> b = be"
    | (sun) "b = sr \<or> b = ss"
    | (civil) "b \<in> set (pair_edges cb ce)"
    | (nautical) "b \<in> set (pair_edges nb ne)"
    | (astronomical) "b \<in> set (pair_edges ab ae)"
    by (auto simp: boundaries_def pair_edges_def split: if_splits)
  then have "sl4 \<le> b - now"
  proof cases
    case bright
    have in_bb: "bb \<in> set (boundaries bb be (Some sr) (Some ss) cb ce nb ne ab ae)"
      using bright(1) by (simp add: boundaries_def)
    from bright(2) show ?thesis
    proof
      assume "b = bb"
      with b(2) s0(3)[OF bright(1)] chain show ?thesis by simp
    next
      assume e: "b = be"
      show ?thesis
      proof (cases "bb < now")
        case True
        with e b(2) s0(4)[OF bright(1)] chain show ?thesis by simp
      next
        case False
        with off(2) have "now < bb" by simp
        with nearest in_bb have "b \<le> bb" by blast
        with e bright(1) show ?thesis by simp
      qed
    qed
  next
    case sun
    have in_sr: "sr \<in> set (boundaries bb be (Some sr) (Some ss) cb ce nb ne ab ae)"
      by (simp add: boundaries_def pair_edges_def)
    from sun show ?thesis
    proof
      assume "b = sr"
      with b(2) s1(3) chain show ?thesis by simp
    next
      assume e: "b = ss"
      show ?thesis
      proof (cases "sr < now")
        case True
        with e b(2) s1(4) chain show ?thesis by simp
      next
        case False
        with off(1) have "now < sr" by simp
        with nearest in_sr have "b \<le> sr" by blast
        with e day show ?thesis by simp
      qed
    qed
  next
    case civil
    from s2(3)[OF off(1) civil b(2)] chain show ?thesis by simp
  next
    case nautical
    from s3(3)[OF off(1) nautical b(2)] chain show ?thesis by simp
  next
    case astronomical
    from s4(3)[OF off(1) astronomical b(2)] show ?thesis by simp
  qed
  then have up: "min sl4 (seconds_to_tomorrow lnow) + seconds 5 \<le> (b - now) + seconds 5"
    by (simp add: min_def)
  from ev pos up show ?thesis by blast
qed

subsection \<open>C9: the unbound local bright\_beg\<close>

text \<open>
  C9 (as amended): when the data of an iteration has sunrise or sunset absent and no
  earlier iteration of the same \<^verbatim>\<open>run\<close> has bound \<^verbatim>\<open>bright_beg\<close> (as in the first
  iteration), the evaluation raises; the handler sleeps until five seconds after the next
  local midnight, \<^verbatim>\<open>_previous_bits\<close> is unchanged, no basic action is called, and
  \<^verbatim>\<open>bright_beg\<close> is still unbound afterwards.
\<close>

theorem C9_unbound_bright_beg_aborts:
  assumes "enabled s"
    and "bright_beg s = None"
    and "get_sun_data_or_cached (fetched ev) s = (s1, Inr d)"
    and "status d = Some ''OK''"
    and "result_field (results d) ''sunrise'' = Inr None
         \<or> result_field (results d) ''sunset'' = Inr None"
  shows "sleep_until (run_cycle ev s)
           = time_time ev + seconds_to_tomorrow (local_now ev) + seconds 5
         \<and> previous_bits (run_cycle ev s) = previous_bits s
         \<and> calls (run_cycle ev s) = calls s
         \<and> bright_beg (run_cycle ev s) = None"
proof -
  note f1 = get_sun_data_frame[OF assms(3)]
  from f1 assms(2) have "bright_beg s1 = None" by simp
  from evaluate_unbound[OF this assms(5), of "utcnow ev" "local_now ev"]
  obtain e where "evaluate s1 (results d) (utcnow ev) (local_now ev) = (s1, Inl e)" by blast
  then have "run_cycle ev s = sleep_to_tomorrow ev s1"
    using assms by (simp add: run_cycle_def)
  then show ?thesis using f1 assms(2) by (simp add: sleep_to_tomorrow_frame)
qed

theorem C9_witness:
  "enabled plugin \<and> bright_beg plugin = None
   \<and> result_field sunless_day ''sunrise'' = Inr None
   \<and> result_field sunless_day ''civil_twilight_begin'' = Inr (Some (clock 1734825600 10 0))
   \<and> sleep_until (run_cycle (cycle_at (clock 1734825600 12 0) (Some (ok_response sunless_day)))
        plugin) = clock 1734825600 12 0 + seconds 39600 + seconds 5
   \<and> previous_bits (run_cycle (cycle_at (clock 1734825600 12 0) (Some (ok_response sunless_day)))
        plugin) = [None, None, None, None, None]
   \<and> calls (run_cycle (cycle_at (clock 1734825600 12 0) (Some (ok_response sunless_day)))
        plugin) = []"
proof -
  have h1: "enabled plugin" by (simp add: plugin_def)
  have h2: "bright_beg plugin = None" by (simp add: plugin_def)
  have h3: "get_sun_data_or_cached
              (fetched (cycle_at (clock 1734825600 12 0) (Some (ok_response sunless_day))))
              plugin
            = (plugin\<lparr>sunrise_data := Some (ok_response sunless_day)\<rparr>,
               Inr (ok_response sunless_day))"
    by (simp add: get_sun_data_or_cached_def cycle_at_def)
  have h4: "status (ok_response sunless_day) = Some ''OK''"
    by (simp add: ok_response_def)
  have h5: "result_field (results (ok_response sunless_day)) ''sunrise'' = Inr None"
    by (simp add: model_defs input_defs)
  have h6: "result_field sunless_day ''civil_twilight_begin''
            = Inr (Some (clock 1734825600 10 0))"
    by (simp add: model_defs input_defs)
  from C9_unbound_bright_beg_aborts[OF h1 h2 h3 h4 disjI1[OF h5]] h1 h2 h5 h6
  show ?thesis
    by (simp add: model_defs input_defs)
qed

text \<open>C9 as stated fails after an iteration that had sunrise and sunset: the local
  keeps its value of the day before and line 230 logs it, so the first iteration without
  sunrise can return flags and actuate. The one below does, at noon, inside every
  twilight window.\<close>

theorem C9_counterexample:
  "result_field sunless_day ''sunrise'' = Inr None
   \<and> result_field sunless_day ''civil_twilight_begin'' = Inr (Some (clock 1734825600 10 0))
   \<and> result_field sunless_day ''civil_twilight_end'' = Inr (Some (clock 1734825600 14 0))
   \<and> previous_bits (run [cycle_at (clock 1734739200 12 0) (Some (ok_response short_day)),
                         cycle_at (clock 1734825600 12 0) (Some (ok_response sunless_day))] plugin)
     = [Some False, Some False, Some True, Some True, Some True]
   \<and> calls (run [cycle_at (clock 1734739200 12 0) (Some (ok_response short_day)),
                 cycle_at (clock 1734825600 12 0) (Some (ok_response sunless_day))] plugin)
     = [(238, 0), (237, 1), (237, 2), (237, 3), (237, 4), (2, 7),
        (238, 0), (238, 1), (237, 2), (237, 3), (237, 4), (2, 7)]"
  by (simp add: model_defs input_defs)

text \<open>
  Binding the locals removes only the abort of line 230. With sunrise absent, the test
  \<^verbatim>\<open>now < sunrise\<close> of line 272 still raises TypeError whenever civil twilight is
  present and \<open>now\<close> is not inside it.
\<close>

lemma sunless_outside_civil_raises:
  assumes "fields_ok res"
    and "bright_beg s = Some bb" and "bright_end s = Some be"
    and "result_field res ''sunrise'' = Inr None"
    and "result_field res ''civil_twilight_begin'' = Inr (Some cb)"
    and "result_field res ''civil_twilight_end'' = Inr (Some ce)"
    and "\<not> (cb < now \<and> now < ce)"
  shows "evaluate s res now lnow = (s, Inl TypeError)"
proof -
  obtain sunset where f2: "result_field res ''sunset'' = Inr sunset"
    using fields_ok_field[OF assms(1), of "''sunset''"] by auto
  obtain nb where f5: "result_field res ''nautical_twilight_begin'' = Inr nb"
    using fields_ok_field[OF assms(1), of "''nautical_twilight_begin''"] by auto
  obtain ne where f6: "result_field res ''nautical_twilight_end'' = Inr ne"
    using fields_ok_field[OF assms(1), of "''nautical_twilight_end''"] by auto
  obtain ab where f7: "result_field res ''astronomical_twilight_begin'' = Inr ab"
    using fields_ok_field[OF assms(1), of "''astronomical_twilight_begin''"] by auto
  obtain ae where f8: "result_field res ''astronomical_twilight_end'' = Inr ae"
    using fields_ok_field[OF assms(1), of "''astronomical_twilight_end''"] by auto
  have lb: "load_bright s None sunset = (s, Inr False)"
    by (simp add: load_bright_def)
  have tw: "twilight_step (Some cb) (Some ce) False False None now sl = Inl TypeError" for sl
    using assms(7) by (simp add: twilight_step_def)
  have an: "analyse False bb be None sunset (Some cb) (Some ce) nb ne ab ae now lnow
            = Inl TypeError"
    using tw by (simp add: analyse_def has_def bright_step_def day_step_def bind_def)
  show ?thesis
    using assms(2-6) f2 f5 f6 f7 f8 lb an
    by (simp add: evaluate_def bind_def)
qed

subsection \<open>C10: coordinates given by hand\<close>

lemma not_digit:
  "\<not> isdigit (CHR ''.'')" "\<not> isdigit (CHR '';'')" "\<not> isdigit (CHR ''-'')"
  "\<not> isdigit (CHR 0x0A)"
  by (simp_all add: isdigit_def)

lemma not_space:
  "\<not> isspace (CHR ''.'')" "\<not> isspace (CHR '';'')" "\<not> isspace (CHR ''-'')"
  by (simp_all add: isspace_def)

lemma digit_not_space: "isdigit c \<Longrightarrow> \<not> isspace c"
  by (auto simp: isdigit_def isspace_def)

lemma dropWhile_keeps: "c \<in> set x \<Longrightarrow> \<not> P c \<Longrightarrow> c \<in> set (dropWhile P x)"
  by (induction x) auto

lemma strip_keeps: "c \<in> set x \<Longrightarrow> \<not> isspace c \<Longrightarrow> c \<in> set (strip x)"
  unfolding strip_def
  by (simp add: dropWhile_keeps)

lemma strip_last: "strip x = [] \<or> \<not> isspace (last (strip x))"
proof (cases "strip x = []")
  case True
  then show ?thesis by simp
next
  case False
  let ?z = "dropWhile isspace (rev (dropWhile isspace x))"
  from False have nz: "?z \<noteq> []" by (simp add: strip_def)
  then have "\<not> isspace (hd ?z)" by (rule hd_dropWhile)
  moreover have "last (strip x) = hd ?z"
    using nz by (simp add: strip_def last_rev)
  ultimately show ?thesis by simp
qed

lemma match_number_Some:
  assumes "match_number x = Some (g, r)"
  shows "\<exists>d1 d2. d1 \<noteq> [] \<and> d2 \<noteq> [] \<and> list_all isdigit d1 \<and> list_all isdigit d2 \<and>
           g = d1 @ ''.'' @ d2 \<and> x = g @ r \<and> (r = [] \<or> \<not> isdigit (hd r))"
proof -
  obtain c y where dw: "dropWhile isdigit x = c # y"
    using assms by (auto simp: match_number_def Let_def split: list.splits)
  from assms dw have a: "takeWhile isdigit x \<noteq> []" and c: "c = CHR ''.''"
    and b: "takeWhile isdigit y \<noteq> []"
    and g: "g = takeWhile isdigit x @ c # takeWhile isdigit y"
    and r: "r = dropWhile isdigit y"
    by (auto simp: match_number_def Let_def split: if_splits)
  have x: "x = takeWhile isdigit x @ c # takeWhile isdigit y @ dropWhile isdigit y"
    using takeWhile_dropWhile_id[of isdigit x] dw by simp
  have hr: "r = [] \<or> \<not> isdigit (hd r)"
    unfolding r using hd_dropWhile[of isdigit y] by blast
  have d1: "list_all isdigit (takeWhile isdigit x)" and d2: "list_all isdigit (takeWhile isdigit y)"
    by (auto simp: list_all_iff dest: set_takeWhileD)
  show ?thesis
    using a b c g r x hr d1 d2
    by (intro exI[of _ "takeWhile isdigit x"] exI[of _ "takeWhile isdigit y"]) auto
qed

lemma takeWhile_digits:
  assumes "list_all isdigit d" and "r = [] \<or> \<not> isdigit (hd r)"
  shows "takeWhile isdigit (d @ r) = d" and "dropWhile isdigit (d @ r) = r"
proof -
  have a: "\<And>c. c \<in> set d \<Longrightarrow> isdigit c" using assms(1) by (simp add: list_all_iff)
  have t: "takeWhile isdigit r = []" and dr: "dropWhile isdigit r = r"
    using assms(2) by (cases r; simp)+
  show "takeWhile isdigit (d @ r) = d" using a t by simp
  show "dropWhile isdigit (d @ r) = r" using a dr by simp
qed

lemma match_number_complete:
  assumes "d1 \<noteq> []" "d2 \<noteq> []" "list_all isdigit d1" "list_all isdigit d2"
    and "r = [] \<or> \<not> isdigit (hd r)"
  shows "match_number (d1 @ ''.'' @ d2 @ r) = Some (d1 @ ''.'' @ d2, r)"
proof -
  have 1: "takeWhile isdigit (d1 @ ''.'' @ d2 @ r) = d1"
    and 2: "dropWhile isdigit (d1 @ ''.'' @ d2 @ r) = ''.'' @ d2 @ r"
    using takeWhile_digits[OF assms(3), of "''.'' @ d2 @ r"] by (simp_all add: not_digit)
  have 3: "takeWhile isdigit (d2 @ r) = d2" and 4: "dropWhile isdigit (d2 @ r) = r"
    using takeWhile_digits[OF assms(4,5)] by simp_all
  show ?thesis
    using 1 2 3 4 assms(1,2) by (simp add: match_number_def)
qed

lemma match_coordinates_Some:
  assumes "match_coordinates x = Some (lat, lng)"
  obtains z rest where "match_number x = Some (lat, CHR '';'' # z)"
    and "match_number z = Some (lng, rest)" and "rest = [] \<or> rest = [CHR 0x0A]"
  using assms unfolding match_coordinates_def
  by (auto split: option.splits list.splits if_splits prod.splits)

text \<open>The pattern, said in words: two numbers, each digits, a dot, digits, with a
  semicolon between them, and nothing else but possibly one final newline.\<close>

lemma match_coordinates_iff:
  "match_coordinates x = Some (lat, lng) \<longleftrightarrow>
     (\<exists>d1 d2 d3 d4. d1 \<noteq> [] \<and> d2 \<noteq> [] \<and> d3 \<noteq> [] \<and> d4 \<noteq> [] \<and>
        list_all isdigit d1 \<and> list_all isdigit d2 \<and> list_all isdigit d3 \<and> list_all isdigit d4 \<and>
        lat = d1 @ ''.'' @ d2 \<and> lng = d3 @ ''.'' @ d4 \<and>
        (x = lat @ '';'' @ lng \<or> x = lat @ '';'' @ lng @ [CHR 0x0A]))"
  (is "?L \<longleftrightarrow> ?R")
proof
  assume ?L
  then obtain z rest where m1: "match_number x = Some (lat, CHR '';'' # z)"
    and m2: "match_number z = Some (lng, rest)"
    and rest: "rest = [] \<or> rest = [CHR 0x0A]"
    by (rule match_coordinates_Some)
  define y where "y = CHR '';'' # z"
  note y = y_def
  have m1: "match_number x = Some (lat, y)" using m1 y by simp
  from match_number_Some[OF m1] obtain d1 d2 where
    a: "d1 \<noteq> []" "d2 \<noteq> []" "list_all isdigit d1" "list_all isdigit d2"
       "lat = d1 @ ''.'' @ d2" "x = lat @ y" by blast
  from match_number_Some[OF m2] obtain d3 d4 where
    b: "d3 \<noteq> []" "d4 \<noteq> []" "list_all isdigit d3" "list_all isdigit d4"
       "lng = d3 @ ''.'' @ d4" "z = lng @ rest" by blast
  have "x = lat @ '';'' @ lng \<or> x = lat @ '';'' @ lng @ [CHR 0x0A]"
    using a(6) b(6) y rest by auto
  with a b show ?R by blast
next
  assume ?R
  then obtain d1 d2 d3 d4 where
    a: "d1 \<noteq> []" "d2 \<noteq> []" "list_all isdigit d1" "list_all isdigit d2" and
    b: "d3 \<noteq> []" "d4 \<noteq> []" "list_all isdigit d3" "list_all isdigit d4" and
    l: "lat = d1 @ ''.'' @ d2" "lng = d3 @ ''.'' @ d4" and
    x: "x = lat @ '';'' @ lng \<or> x = lat @ '';'' @ lng @ [CHR 0x0A]" by blast
  from x obtain e where e: "e = [] \<or> e = [CHR 0x0A]" and xe: "x = lat @ '';'' @ lng @ e"
    by auto
  have m1: "match_number x = Some (lat, '';'' @ lng @ e)"
    using match_number_complete[OF a, of "'';'' @ lng @ e"] l xe by (simp add: not_digit)
  have m2: "match_number (lng @ e) = Some (lng, e)"
    using match_number_complete[OF b, of e] l e by (auto simp: not_digit)
  show ?L using m1 m2 e by (auto simp: match_coordinates_def)
qed

lemma match_coordinates_minus:
  assumes "CHR ''-'' \<in> set x"
  shows "match_coordinates x = None"
proof (cases "match_coordinates x")
  case None
  then show ?thesis .
next
  case (Some p)
  obtain lat lng where p: "p = (lat, lng)" by (cases p)
  from Some p have "match_coordinates x = Some (lat, lng)" by simp
  then obtain d1 d2 d3 d4 where
    d: "list_all isdigit d1" "list_all isdigit d2" "list_all isdigit d3" "list_all isdigit d4"
    and x: "x = (d1 @ ''.'' @ d2) @ '';'' @ (d3 @ ''.'' @ d4)
            \<or> x = (d1 @ ''.'' @ d2) @ '';'' @ (d3 @ ''.'' @ d4) @ [CHR 0x0A]"
    unfolding match_coordinates_iff by blast
  from x assms have "CHR ''-'' \<in> set d1 \<union> set d2 \<union> set d3 \<union> set d4" by auto
  with d have "isdigit (CHR ''-'')" by (auto simp: list_all_iff)
  then show ?thesis by (simp add: not_digit)
qed

lemma match_coordinates_integer_left:
  assumes "list_all isdigit a"
  shows "match_coordinates (a @ '';'' @ b) = None"
proof -
  have "dropWhile isdigit (a @ '';'' @ b) = '';'' @ b"
    using takeWhile_digits(2)[OF assms, of "'';'' @ b"] by (simp add: not_digit)
  then have "match_number (a @ '';'' @ b) = None"
    by (simp add: match_number_def)
  then show ?thesis by (simp add: match_coordinates_def)
qed

lemma after_last_semicolon:
  assumes "u @ '';'' @ v = u' @ '';'' @ v'"
    and "CHR '';'' \<notin> set v" and "CHR '';'' \<notin> set v'"
  shows "v = v'"
proof -
  have t: "\<And>p q. CHR '';'' \<notin> set q \<Longrightarrow>
             takeWhile (\<lambda>c. c \<noteq> CHR '';'') (rev (p @ '';'' @ q)) = rev q"
  proof -
    fix p q :: string
    assume "CHR '';'' \<notin> set q"
    then have "\<And>c. c \<in> set (rev q) \<Longrightarrow> c \<noteq> CHR '';''" by auto
    then have "takeWhile (\<lambda>c. c \<noteq> CHR '';'') (rev q @ CHR '';'' # rev p)
               = rev q @ takeWhile (\<lambda>c. c \<noteq> CHR '';'') (CHR '';'' # rev p)"
      by (rule takeWhile_append2)
    then show "takeWhile (\<lambda>c. c \<noteq> CHR '';'') (rev (p @ '';'' @ q)) = rev q" by simp
  qed
  from assms(1) have "takeWhile (\<lambda>c. c \<noteq> CHR '';'') (rev (u @ '';'' @ v))
                    = takeWhile (\<lambda>c. c \<noteq> CHR '';'') (rev (u' @ '';'' @ v'))" by simp
  then have "rev v = rev v'" unfolding t[OF assms(2)] t[OF assms(3)] .
  then show ?thesis by simp
qed

lemma match_coordinates_integer_right:
  assumes "list_all isdigit b"
  shows "match_coordinates (a @ '';'' @ b) = None"
proof (cases "match_coordinates (a @ '';'' @ b)")
  case None
  then show ?thesis .
next
  case (Some p)
  obtain lat lng where p: "p = (lat, lng)" by (cases p)
  from Some p have "match_coordinates (a @ '';'' @ b) = Some (lat, lng)" by simp
  then obtain d1 d2 d3 d4 where
    d: "list_all isdigit d3" "list_all isdigit d4"
    and x: "a @ '';'' @ b = (d1 @ ''.'' @ d2) @ '';'' @ (d3 @ ''.'' @ d4)
            \<or> a @ '';'' @ b = (d1 @ ''.'' @ d2) @ '';'' @ (d3 @ ''.'' @ d4) @ [CHR 0x0A]"
    unfolding match_coordinates_iff by blast
  then obtain e where e: "e = [] \<or> e = [CHR 0x0A]"
    and xe: "a @ '';'' @ b = (d1 @ ''.'' @ d2) @ '';'' @ (d3 @ ''.'' @ d4 @ e)" by auto
  have nb: "CHR '';'' \<notin> set b"
    using assms by (auto simp: list_all_iff not_digit)
  have ne: "CHR '';'' \<notin> set (d3 @ ''.'' @ d4 @ e)"
    using d e by (auto simp: list_all_iff not_digit)
  from after_last_semicolon[OF xe nb ne] have "CHR ''.'' \<in> set b" by simp
  with assms have "isdigit (CHR ''.'')" by (auto simp: list_all_iff)
  then show ?thesis by (simp add: not_digit)
qed

lemma strip_no_final_newline: "strip x \<noteq> y @ [CHR 0x0A]"
  using strip_last[of x] by (auto simp: isspace_def)

lemma read_config_match:
  "match_coordinates (coordinates_of cfg) = Some (lat, lng) \<Longrightarrow>
     enabled (read_config cfg s) \<and> latitude (read_config cfg s) = lat \<and>
     longitude (read_config cfg s) = lng \<and>
     translate_address_threads (read_config cfg s) = translate_address_threads s"
  by (simp add: read_config_def enable_plugin_def)

lemma read_config_no_match:
  "match_coordinates (coordinates_of cfg) = None \<Longrightarrow>
     \<not> enabled (read_config cfg s) \<and>
     translate_address_threads (read_config cfg s) = translate_address_threads s + 1"
  by (simp add: read_config_def)

text \<open>
  C10: \<^verbatim>\<open>_read_config\<close> leaves the plugin enabled exactly when the variable
  \<^verbatim>\<open>coordinates\<close> (the configured value, stripped) consists of two numbers joined by a
  semicolon, each of them one or more digits, a dot and one or more digits, which is what
  the pattern \<^verbatim>\<open>^(\d+\.\d+);(\d+\.\d+)$\<close> accepts of a stripped string. A configured
  value that contains a minus sign, and one whose part before or after the semicolon is
  digits only (an integer), leave the plugin disabled and start the thread that geocodes
  the location.
\<close>

theorem C10_manual_coordinates:
  "(enabled (read_config cfg s) \<longleftrightarrow>
      (\<exists>d1 d2 d3 d4. d1 \<noteq> [] \<and> d2 \<noteq> [] \<and> d3 \<noteq> [] \<and> d4 \<noteq> [] \<and>
         list_all isdigit d1 \<and> list_all isdigit d2 \<and>
         list_all isdigit d3 \<and> list_all isdigit d4 \<and>
         coordinates_of cfg = d1 @ ''.'' @ d2 @ '';'' @ d3 @ ''.'' @ d4))
   \<and> (CHR ''-'' \<in> set (get_or (cfg_coordinates cfg) []) \<longrightarrow>
        \<not> enabled (read_config cfg s) \<and>
        translate_address_threads (read_config cfg s) = translate_address_threads s + 1)
   \<and> (\<forall>a b. coordinates_of cfg = a @ '';'' @ b \<and> (list_all isdigit a \<or> list_all isdigit b) \<longrightarrow>
        \<not> enabled (read_config cfg s) \<and>
        translate_address_threads (read_config cfg s) = translate_address_threads s + 1)"
proof (intro conjI impI allI)
  show "enabled (read_config cfg s) \<longleftrightarrow>
      (\<exists>d1 d2 d3 d4. d1 \<noteq> [] \<and> d2 \<noteq> [] \<and> d3 \<noteq> [] \<and> d4 \<noteq> [] \<and>
         list_all isdigit d1 \<and> list_all isdigit d2 \<and>
         list_all isdigit d3 \<and> list_all isdigit d4 \<and>
         coordinates_of cfg = d1 @ ''.'' @ d2 @ '';'' @ d3 @ ''.'' @ d4)"
    (is "?E \<longleftrightarrow> ?F")
  proof
    assume ?E
    then obtain lat lng where "match_coordinates (coordinates_of cfg) = Some (lat, lng)"
      using read_config_no_match[of cfg s]
      by (cases "match_coordinates (coordinates_of cfg)") auto
    then obtain d1 d2 d3 d4 where
      d: "d1 \<noteq> []" "d2 \<noteq> []" "d3 \<noteq> []" "d4 \<noteq> []"
         "list_all isdigit d1" "list_all isdigit d2" "list_all isdigit d3" "list_all isdigit d4"
      and x: "coordinates_of cfg = (d1 @ ''.'' @ d2) @ '';'' @ (d3 @ ''.'' @ d4)
            \<or> coordinates_of cfg = (d1 @ ''.'' @ d2) @ '';'' @ (d3 @ ''.'' @ d4) @ [CHR 0x0A]"
      unfolding match_coordinates_iff by blast
    have "coordinates_of cfg \<noteq> ((d1 @ ''.'' @ d2) @ '';'' @ (d3 @ ''.'' @ d4)) @ [CHR 0x0A]"
      unfolding coordinates_of_def by (rule strip_no_final_newline)
    with x have "coordinates_of cfg = d1 @ ''.'' @ d2 @ '';'' @ d3 @ ''.'' @ d4" by auto
    with d show ?F by blast
  next
    assume ?F
    then obtain d1 d2 d3 d4 where
      d: "d1 \<noteq> []" "d2 \<noteq> []" "d3 \<noteq> []" "d4 \<noteq> []"
         "list_all isdigit d1" "list_all isdigit d2" "list_all isdigit d3" "list_all isdigit d4"
      and x: "coordinates_of cfg = d1 @ ''.'' @ d2 @ '';'' @ d3 @ ''.'' @ d4" by blast
    have "match_coordinates (coordinates_of cfg) = Some (d1 @ ''.'' @ d2, d3 @ ''.'' @ d4)"
      unfolding match_coordinates_iff using d x by auto
    then show ?E by (simp add: read_config_match)
  qed
next
  assume "CHR ''-'' \<in> set (get_or (cfg_coordinates cfg) [])"
  then have "CHR ''-'' \<in> set (coordinates_of cfg)"
    unfolding coordinates_of_def by (simp add: strip_keeps not_space)
  then have n: "match_coordinates (coordinates_of cfg) = None"
    by (rule match_coordinates_minus)
  from read_config_no_match[OF n, of s]
  show "\<not> enabled (read_config cfg s)"
    and "translate_address_threads (read_config cfg s) = translate_address_threads s + 1"
    by simp_all
next
  fix a b
  assume h: "coordinates_of cfg = a @ '';'' @ b \<and> (list_all isdigit a \<or> list_all isdigit b)"
  then have n: "match_coordinates (coordinates_of cfg) = None"
    using match_coordinates_integer_left[of a b] match_coordinates_integer_right[of b a]
    by auto
  from read_config_no_match[OF n, of s]
  show "\<not> enabled (read_config cfg s)"
    and "translate_address_threads (read_config cfg s) = translate_address_threads s + 1"
    by simp_all
qed

text \<open>A southern latitude and an integer latitude are refused; the coordinates of
  Brussels, with blanks around them, are accepted.\<close>

theorem C10_witness:
  "CHR ''-'' \<in> set (get_or (cfg_coordinates (config_with ''-33.86;151.21'')) [])
   \<and> \<not> enabled (read_config (config_with ''-33.86;151.21'') plugin)
   \<and> translate_address_threads (read_config (config_with ''-33.86;151.21'') plugin) = 1
   \<and> coordinates_of (config_with ''50;4.35'') = ''50'' @ '';'' @ ''4.35''
   \<and> \<not> enabled (read_config (config_with ''50;4.35'') plugin)
   \<and> coordinates_of (config_with '' 50.85;4.35 '') = ''50.85;4.35''
   \<and> enabled (read_config (config_with '' 50.85;4.35 '') plugin)"
proof -
  have h1: "CHR ''-'' \<in> set (get_or (cfg_coordinates (config_with ''-33.86;151.21'')) [])"
    by (simp add: config_with_def get_or_def)
  have h2: "coordinates_of (config_with ''50;4.35'') = ''50'' @ '';'' @ ''4.35''"
    by (simp add: config_with_def get_or_def coordinates_of_def strip_def isspace_def)
  have h3: "list_all isdigit ''50''"
    by (simp add: isdigit_def)
  have h4: "coordinates_of (config_with '' 50.85;4.35 '') = ''50.85;4.35''"
    by (simp add: config_with_def get_or_def coordinates_of_def strip_def isspace_def)
  have h5: "\<exists>d1 d2 d3 d4. d1 \<noteq> [] \<and> d2 \<noteq> [] \<and> d3 \<noteq> [] \<and> d4 \<noteq> [] \<and>
         list_all isdigit d1 \<and> list_all isdigit d2 \<and>
         list_all isdigit d3 \<and> list_all isdigit d4 \<and>
         coordinates_of (config_with '' 50.85;4.35 '') = d1 @ ''.'' @ d2 @ '';'' @ d3 @ ''.'' @ d4"
    unfolding h4
    by (intro exI[of _ "''50''"] exI[of _ "''85''"] exI[of _ "''4''"] exI[of _ "''35''"])
       (simp add: isdigit_def)
  have t: "translate_address_threads plugin = 0" by (simp add: plugin_def)
  note m = C10_manual_coordinates[of "config_with ''-33.86;151.21''" plugin]
  from conjunct1[OF conjunct2[OF m]] h1 t
  have a: "\<not> enabled (read_config (config_with ''-33.86;151.21'') plugin)
           \<and> translate_address_threads (read_config (config_with ''-33.86;151.21'') plugin) = 1"
    by simp
  note i = C10_manual_coordinates[of "config_with ''50;4.35''" plugin]
  from conjunct2[OF conjunct2[OF i]] h2 h3
  have b: "\<not> enabled (read_config (config_with ''50;4.35'') plugin)"
    by blast
  note e = C10_manual_coordinates[of "config_with '' 50.85;4.35 ''" plugin]
  from conjunct1[OF e] h5
  have c: "enabled (read_config (config_with '' 50.85;4.35 '') plugin)"
    by blast
  from a b c h1 h2 h4 show ?thesis by simp
qed

end
